theory Spec2Isabelle
  imports Complex_Main
begin

section \<open>The conservative field-mapping harness of mapConservativeFields.C\<close>

text \<open>
  The development embeds the test and driver routines of
  \<^verbatim>\<open>mapConservativeFields.C\<close>: \<^verbatim>\<open>MapConservativeVolFields\<close>,
  \<^verbatim>\<open>initBoundaryFields\<close>, \<^verbatim>\<open>initTestField\<close>, \<^verbatim>\<open>computeError\<close> and
  \<^verbatim>\<open>testCyclicRemap\<close>.

  Conventions of the embedding.
  \<^item> A \<^verbatim>\<open>scalar\<close> is a mathematical real: the formulas are the ones of the source, rounding
    is not modelled.
  \<^item> A \<^verbatim>\<open>label\<close> is an integer.
  \<^item> A call of \<^verbatim>\<open>abort(FatalError)\<close> and a division whose divisor is zero end the run; both
    are values of the type \<open>error\<close>, and every routine that can reach one returns
    \<open>error + result\<close>.
  \<^item> Output on \<^verbatim>\<open>Info\<close> and calls of \<^verbatim>\<open>write()\<close> are collected, in program order, in a list
    of events.
\<close>

subsection \<open>Scalars, vectors and faults\<close>

type_synonym scalar = real
type_synonym label = int

datatype vector = Vector (vec_x: scalar) (vec_y: scalar) (vec_z: scalar)

definition vector_zero :: vector where
  "vector_zero = Vector 0 0 0"

text \<open>\<^verbatim>\<open>a - b\<close> on vectors.\<close>

definition vector_minus :: "vector \<Rightarrow> vector \<Rightarrow> vector" where
  "vector_minus a b = Vector (vec_x a - vec_x b) (vec_y a - vec_y b) (vec_z a - vec_z b)"

text \<open>\<^verbatim>\<open>s * v\<close>, a scalar times a vector.\<close>

definition vector_scale :: "scalar \<Rightarrow> vector \<Rightarrow> vector" where
  "vector_scale s v = Vector (s * vec_x v) (s * vec_y v) (s * vec_z v)"

text \<open>\<^verbatim>\<open>mag(v)\<close>, the Euclidean length of a vector.\<close>

definition mag_vector :: "vector \<Rightarrow> scalar" where
  "mag_vector v = sqrt (vec_x v * vec_x v + vec_y v * vec_y v + vec_z v * vec_z v)"

text \<open>\<^verbatim>\<open>mag(s)\<close> and \<^verbatim>\<open>magSqr(s)\<close> on scalars.\<close>

definition mag :: "scalar \<Rightarrow> scalar" where
  "mag s = \<bar>s\<bar>"

definition magSqr :: "scalar \<Rightarrow> scalar" where
  "magSqr s = s * s"

text \<open>
  \<open>FatalError location message\<close> is \<^verbatim>\<open>FatalErrorIn(location) << message << abort(FatalError)\<close>.
  \<open>FloatingPointException\<close> is a division by zero: the quotient is not a number of the model,
  and the run ends there.
\<close>

datatype error = FatalError string string | FloatingPointException

definition divide_scalar :: "scalar \<Rightarrow> scalar \<Rightarrow> error + scalar" where
  "divide_scalar a b = (if b = 0 then Inl FloatingPointException else Inr (a / b))"

subsection \<open>The test enumeration\<close>

datatype testType = CONSTANT | LINEAR | SINUSOID_2D | SINUSOID_3D | COSINE_HILL_2D

text \<open>
  An object of the enumeration type holds an integer; the enumerators are the values 0 to 4
  in the order of their declaration. A \<^verbatim>\<open>switch\<close> over the object selects the case label whose
  value it holds, and its \<^verbatim>\<open>default\<close> label (or nothing) when it holds none of them:
  \<open>enumerant\<close> is that selection.
\<close>

definition enumerant :: "label \<Rightarrow> testType option" where
  "enumerant v =
     (if v = 0 then Some CONSTANT
      else if v = 1 then Some LINEAR
      else if v = 2 then Some SINUSOID_2D
      else if v = 3 then Some SINUSOID_3D
      else if v = 4 then Some COSINE_HILL_2D
      else None)"

fun enum_value :: "testType \<Rightarrow> label" where
  "enum_value CONSTANT = 0"
| "enum_value LINEAR = 1"
| "enum_value SINUSOID_2D = 2"
| "enum_value SINUSOID_3D = 3"
| "enum_value COSINE_HILL_2D = 4"

text \<open>\<^verbatim>\<open>const scalar constScalVal = 2.0\<close>\<close>

definition constScalVal :: scalar where
  "constScalVal = 2"

subsection \<open>Meshes and fields\<close>

text \<open>
  What the harness reads of an \<^verbatim>\<open>fvMesh\<close>: the time name, the cell volumes \<^verbatim>\<open>V()\<close>, the cell
  centres (\<^verbatim>\<open>cellCentres()\<close>, which is also the internal field of \<^verbatim>\<open>C()\<close>) and, patch by patch,
  the face centres (the boundary field of \<^verbatim>\<open>C()\<close>).
\<close>

record fvMesh =
  timeName :: string
  V :: "scalar list"
  cellCentres :: "vector list"
  faceCentres :: "vector list list"

definition nCells :: "fvMesh \<Rightarrow> nat" where
  "nCells m = length (V m)"

datatype readOption = MUST_READ | NO_READ
datatype writeOption = AUTO_WRITE | NO_WRITE

record IOobject =
  objName :: string
  objInstance :: string
  readOpt :: readOption
  writeOpt :: writeOption

text \<open>
  A \<^verbatim>\<open>GeometricField<Type, fvPatchField, volMesh>\<close>: its descriptor, the mesh it lives on, one
  value per cell, one value per face of every patch, and the patch field type it was made with.
\<close>

record 'a GeometricField =
  fieldIO :: IOobject
  fieldMesh :: fvMesh
  internalField :: "'a list"
  boundaryField :: "'a list list"
  patchFieldType :: string

text \<open>
  The constructor \<^verbatim>\<open>GeometricField(io, mesh, dimensioned<Type>(name, dims, value), patchFieldType)\<close>:
  every cell and every boundary face holds \<open>value\<close>.
\<close>

definition newField :: "IOobject \<Rightarrow> fvMesh \<Rightarrow> 'a \<Rightarrow> string \<Rightarrow> 'a GeometricField" where
  "newField io m val pft =
     \<lparr> fieldIO = io, fieldMesh = m,
       internalField = replicate (nCells m) val,
       boundaryField = map (\<lambda>patch. replicate (length patch) val) (faceCentres m),
       patchFieldType = pft \<rparr>"

subsection \<open>Loops\<close>

text \<open>
  \<^verbatim>\<open>forAll(list, i) { body }\<close> where the body computes the new entry \<open>i\<close> and may end the run:
  the indices are visited in increasing order and the first fault is the result.
\<close>

fun forAll :: "nat list \<Rightarrow> (nat \<Rightarrow> error + 'b) \<Rightarrow> error + 'b list" where
  "forAll [] body = Inr []"
| "forAll (i # rest) body =
     (case body i of
        Inl e \<Rightarrow> Inl e
      | Inr v \<Rightarrow> (case forAll rest body of Inl e \<Rightarrow> Inl e | Inr vs \<Rightarrow> Inr (v # vs)))"

text \<open>
  The doubly nested loop of \<^verbatim>\<open>initBoundaryFields\<close> over the patches of a boundary field and the
  faces of each patch, assigning \<open>f patchI faceI\<close> to face \<open>faceI\<close> of patch \<open>patchI\<close>.
\<close>

definition forAllFaces :: "'a list list \<Rightarrow> (nat \<Rightarrow> nat \<Rightarrow> 'a) \<Rightarrow> 'a list list" where
  "forAllFaces bf f =
     map (\<lambda>patchI. map (\<lambda>faceI. f patchI faceI) [0..<length (bf ! patchI)]) [0..<length bf]"

subsection \<open>initBoundaryFields\<close>

text \<open>
  The location strings of the two \<^verbatim>\<open>FatalErrorIn\<close> calls (the line breaks of the source
  are written as single spaces) and the message both of them print.
\<close>

definition initBoundaryFields_name :: string where
  "initBoundaryFields_name =
     ''tmp<volScalarField> initBoundaryFields ( const fvMesh& mesh, const testType type, autoPtr<volScalarField>& tField )''"

definition unknown_enumerant :: string where
  "unknown_enumerant = ''Unknown enumerant for initialisation.''"

definition initBoundaryFields ::
  "fvMesh \<Rightarrow> label \<Rightarrow> scalar GeometricField \<Rightarrow> error + scalar GeometricField" where
  "initBoundaryFields mesh type tField =
     (let xC = faceCentres mesh;
          field = tField;
          hC = Vector 0 0 0;
          L = 0.5 * sqrt 2
      in case enumerant type of
           Some CONSTANT \<Rightarrow>
             Inr (field\<lparr>boundaryField :=
               forAllFaces (boundaryField field) (\<lambda>patchI faceI. constScalVal)\<rparr>)
         | Some LINEAR \<Rightarrow>
             Inr (field\<lparr>boundaryField :=
               forAllFaces (boundaryField field) (\<lambda>patchI faceI.
                 let x = xC ! patchI ! faceI
                 in 2 * vec_x x + 3 * vec_y x + vec_z x)\<rparr>)
         | Some SINUSOID_2D \<Rightarrow>
             Inr (field\<lparr>boundaryField :=
               forAllFaces (boundaryField field) (\<lambda>patchI faceI.
                 let x = xC ! patchI ! faceI
                 in 1 + sin (2 * pi * vec_x x) * sin (2 * pi * vec_y x))\<rparr>)
         | Some SINUSOID_3D \<Rightarrow>
             Inr (field\<lparr>boundaryField :=
               forAllFaces (boundaryField field) (\<lambda>patchI faceI.
                 let x = xC ! patchI ! faceI
                 in 1 + sin (2 * pi * vec_x x) * sin (2 * pi * vec_y x)
                      * sin (2 * pi * vec_z x))\<rparr>)
         | Some COSINE_HILL_2D \<Rightarrow>
             Inr (field\<lparr>boundaryField :=
               forAllFaces (boundaryField field) (\<lambda>patchI faceI.
                 let r = mag_vector (vector_minus (xC ! patchI ! faceI) hC)
                 in 2 + cos (pi * r / L))\<rparr>)
         | None \<Rightarrow> Inl (FatalError initBoundaryFields_name unknown_enumerant))"

subsection \<open>initTestField\<close>

definition initTestField_name :: string where
  "initTestField_name =
     ''tmp<volScalarField> initTestField ( const fvMesh& mesh, const testType type, bool populate )''"

text \<open>
  The \<^verbatim>\<open>switch\<close> of \<^verbatim>\<open>initTestField\<close>: each case is a loop over the cells that assigns
  \<^verbatim>\<open>field[cellI]\<close> and \<^verbatim>\<open>gfield[cellI]\<close>; the result is the list of the pairs assigned, in
  cell order. \<open>xC\<close> is the internal field of \<^verbatim>\<open>mesh.C()\<close>, \<open>cells\<close> the indices of \<^verbatim>\<open>field\<close>.
\<close>

definition initTestField_switch ::
  "vector list \<Rightarrow> nat list \<Rightarrow> label \<Rightarrow> error + (scalar \<times> vector) list" where
  "initTestField_switch xC cells type =
     (let hC = Vector 0 0 0;
          L = 0.5 * sqrt 2
      in case enumerant type of
           Some CONSTANT \<Rightarrow>
             forAll cells (\<lambda>cellI. Inr (constScalVal, Vector 0 0 0))
         | Some LINEAR \<Rightarrow>
             forAll cells (\<lambda>cellI.
               let x = xC ! cellI
               in Inr (2 * vec_x x + 3 * vec_y x + vec_z x, Vector 2 3 1))
         | Some SINUSOID_2D \<Rightarrow>
             forAll cells (\<lambda>cellI.
               let x = xC ! cellI
               in Inr (1 + sin (2 * pi * vec_x x) * sin (2 * pi * vec_y x),
                       vector_scale (2 * pi)
                         (Vector
                           (cos (2 * pi * vec_x x) * sin (2 * pi * vec_y x))
                           (sin (2 * pi * vec_x x) * cos (2 * pi * vec_y x))
                           0)))
         | Some SINUSOID_3D \<Rightarrow>
             forAll cells (\<lambda>cellI.
               let x = xC ! cellI
               in Inr (1 + sin (2 * pi * vec_x x) * sin (2 * pi * vec_y x)
                         * sin (2 * pi * vec_z x),
                       vector_scale (2 * pi)
                         (Vector
                           (cos (2 * pi * vec_x x) * sin (2 * pi * vec_y x)
                             * sin (2 * pi * vec_z x))
                           (sin (2 * pi * vec_x x) * cos (2 * pi * vec_y x)
                             * sin (2 * pi * vec_z x))
                           (sin (2 * pi * vec_x x) * sin (2 * pi * vec_y x)
                             * cos (2 * pi * vec_z x)))))
         | Some COSINE_HILL_2D \<Rightarrow>
             forAll cells (\<lambda>cellI.
               let x = xC ! cellI;
                   r = mag_vector (vector_minus x hC)
               in case divide_scalar pi (r * L) of
                    Inl e \<Rightarrow> Inl e
                  | Inr q \<Rightarrow>
                      Inr (2 + cos (pi * r / L),
                           vector_scale q
                             (Vector
                               (- sin (pi * r / L) * vec_x x)
                               (- sin (pi * r / L) * vec_y x)
                               (- sin (pi * r / L) * vec_z x))))
         | None \<Rightarrow> Inl (FatalError initTestField_name unknown_enumerant))"

text \<open>
  \<^verbatim>\<open>initTestField\<close>: both fields are made anew; with \<open>populate\<close> the switch fills the cells of
  both and \<^verbatim>\<open>initBoundaryFields\<close> then sets the boundary of the scalar field.
\<close>

definition initTestField ::
  "fvMesh \<Rightarrow> label \<Rightarrow> bool \<Rightarrow> error + (scalar GeometricField \<times> vector GeometricField)" where
  "initTestField mesh type populate =
     (let xC = cellCentres mesh;
          tField = newField
            \<lparr> objName = ''alpha'', objInstance = timeName mesh,
              readOpt = NO_READ, writeOpt = NO_WRITE \<rparr>
            mesh (0::scalar) ''fixedValue'';
          tgField = newField
            \<lparr> objName = ''grad(alpha)'', objInstance = timeName mesh,
              readOpt = NO_READ, writeOpt = NO_WRITE \<rparr>
            mesh vector_zero ''zeroGradient''
      in if populate then
           (let field = tField;
                gfield = tgField
            in case initTestField_switch xC [0..<length (internalField field)] type of
                 Inl e \<Rightarrow> Inl e
               | Inr cellValues \<Rightarrow>
                   (case initBoundaryFields mesh type
                           (field\<lparr>internalField := map fst cellValues\<rparr>) of
                      Inl e \<Rightarrow> Inl e
                    | Inr tField' \<Rightarrow>
                        Inr (tField', gfield\<lparr>internalField := map snd cellValues\<rparr>)))
         else Inr (tField, tgField))"

subsection \<open>Volume integrals\<close>

text \<open>
  \<^verbatim>\<open>f1 * f2\<close> on two fields: the result has the size of the first operand and entry \<open>i\<close> is the
  product of the two entries \<open>i\<close>. The first operand is a scalar field; the second is a field of
  scalars or of vectors (\<open>*\<^sub>R\<close> is the product of a scalar with either).
\<close>

definition fieldProduct :: "scalar list \<Rightarrow> 'a::real_vector list \<Rightarrow> 'a list" where
  "fieldProduct f1 f2 = map (\<lambda>i. (f1 ! i) *\<^sub>R (f2 ! i)) [0..<length f1]"

text \<open>\<^verbatim>\<open>gSum(f)\<close>, the sum of the entries of a field (the run is on one processor).\<close>

definition gSum :: "'a::real_vector list \<Rightarrow> 'a" where
  "gSum f = sum_list f"

text \<open>
  The expression \<^verbatim>\<open>gSum(mesh.V() * field.internalField())\<close>, which the source writes out at
  each of its six uses.
\<close>

definition volIntegral :: "fvMesh \<Rightarrow> 'a::real_vector GeometricField \<Rightarrow> 'a" where
  "volIntegral mesh field = gSum (fieldProduct (V mesh) (internalField field))"

subsection \<open>computeError\<close>

text \<open>One block of norms as \<^verbatim>\<open>computeError\<close> prints it.\<close>

record errorNorms =
  l2Error :: scalar
  linfError :: scalar
  dx :: scalar
  dx2 :: scalar
  cellCount :: nat

text \<open>
  The \<^verbatim>\<open>switch\<close> inside both loops of \<^verbatim>\<open>computeError\<close> (the two copies differ in the names
  \<^verbatim>\<open>sExact\<close> and \<^verbatim>\<open>tExact\<close> only). It assigns the exact value at \<open>xC\<close>; it has no
  \<^verbatim>\<open>default\<close> label, so for any other value of \<open>type\<close> the variable keeps the value \<open>prev\<close> it
  had.
\<close>

definition exactSwitch :: "label \<Rightarrow> vector \<Rightarrow> scalar \<Rightarrow> scalar" where
  "exactSwitch type xC prev =
     (let hC = Vector 0 0 0;
          L = 0.5 * sqrt 2
      in case enumerant type of
           Some CONSTANT \<Rightarrow> constScalVal
         | Some LINEAR \<Rightarrow> 2 * vec_x xC + 3 * vec_y xC + vec_z xC
         | Some SINUSOID_2D \<Rightarrow> 1 + sin (2 * pi * vec_x xC) * sin (2 * pi * vec_y xC)
         | Some SINUSOID_3D \<Rightarrow>
             1 + sin (2 * pi * vec_x xC) * sin (2 * pi * vec_y xC) * sin (2 * pi * vec_z xC)
         | Some COSINE_HILL_2D \<Rightarrow>
             (let r = mag_vector (vector_minus xC hC) in 2 + cos (pi * r / L))
         | None \<Rightarrow> prev)"

text \<open>
  The body of the loop over the source cells; the loop state is
  \<open>(sError, smError, sExact)\<close>.
\<close>

definition sourceStep ::
  "label \<Rightarrow> vector list \<Rightarrow> scalar list \<Rightarrow> nat \<Rightarrow> scalar \<times> scalar \<times> scalar
     \<Rightarrow> scalar \<times> scalar \<times> scalar" where
  "sourceStep type sCentres isF cellI st =
     (case st of (sError, smError, sExact) \<Rightarrow>
        let xC = sCentres ! cellI;
            sExact' = exactSwitch type xC sExact
        in (sError + magSqr (isF ! cellI - sExact'),
            max smError (mag (isF ! cellI - sExact')),
            sExact'))"

text \<open>
  The body of the loop over the target cells; the loop state is
  \<open>(tError, tmError, tExact, iError)\<close>, the last being the internal field of \<^verbatim>\<open>iError\<close>.
\<close>

definition targetStep ::
  "label \<Rightarrow> vector list \<Rightarrow> scalar list \<Rightarrow> nat \<Rightarrow> scalar \<times> scalar \<times> scalar \<times> scalar list
     \<Rightarrow> scalar \<times> scalar \<times> scalar \<times> scalar list" where
  "targetStep type tCentres itF cellI st =
     (case st of (tError, tmError, tExact, iError) \<Rightarrow>
        let xC = tCentres ! cellI;
            tExact' = exactSwitch type xC tExact
        in (tError + magSqr (itF ! cellI - tExact'),
            max tmError (mag (itF ! cellI - tExact')),
            tExact',
            iError[cellI := mag (itF ! cellI - tExact')]))"

text \<open>
  \<^verbatim>\<open>computeError\<close> prints two blocks, the first for the source field and the second for the
  target field; they are its result here. \<^verbatim>\<open>iError\<close> is made without initial values (they are
  written as zeros) and is dropped, unwritten, when the function returns. The four divisions
  by a field size are evaluated in the order of the source.
\<close>

definition computeError ::
  "scalar GeometricField \<Rightarrow> scalar GeometricField \<Rightarrow> label \<Rightarrow> error + (errorNorms \<times> errorNorms)"
  where
  "computeError fieldSource fieldTarget type =
     (let sCentres = cellCentres (fieldMesh fieldSource);
          tCentres = cellCentres (fieldMesh fieldTarget);
          isF = internalField fieldSource;
          itF = internalField fieldTarget;
          iError0 = replicate (nCells (fieldMesh fieldTarget)) (0::scalar)
      in case fold (sourceStep type sCentres isF) [0..<length isF] (0, 0, 0) of
           (sError, smError, sExact) \<Rightarrow>
         (case fold (targetStep type tCentres itF) [0..<length itF] (0, 0, 0, iError0) of
           (tError, tmError, tExact, iError) \<Rightarrow>
         (case divide_scalar 1 (real (length isF)) of Inl e \<Rightarrow> Inl e | Inr sq \<Rightarrow>
         (case divide_scalar 1 (real (length itF)) of Inl e \<Rightarrow> Inl e | Inr tq \<Rightarrow>
         (let sdx = root 3 sq;
              tdx = root 3 tq
          in case divide_scalar sError (real (length isF)) of Inl e \<Rightarrow> Inl e | Inr sMean \<Rightarrow>
            (case divide_scalar tError (real (length itF)) of Inl e \<Rightarrow> Inl e | Inr tMean \<Rightarrow>
               Inr (\<lparr> l2Error = sqrt sMean, linfError = smError, dx = sdx,
                      dx2 = sdx * sdx, cellCount = length isF \<rparr>,
                    \<lparr> l2Error = sqrt tMean, linfError = tmError, dx = tdx,
                      dx2 = tdx * tdx, cellCount = length itF \<rparr>)))))))"

subsection \<open>The mapping operator, the persisted fields and the output\<close>

text \<open>
  A \<^verbatim>\<open>conservativeMeshToMesh\<close> object is known to the harness by the arguments of its
  constructor. Its \<^verbatim>\<open>interpolate\<close> members are declared in \<^verbatim>\<open>conservativeMeshToMesh.H\<close>,
  which is not part of the source at hand; the routines below take each overload they call as
  a parameter. An in-place overload receives the target field and returns the target field it
  leaves behind, or the fault that ended the run.
\<close>

record conservativeMeshToMesh =
  srcMesh :: fvMesh
  tgtMesh :: fvMesh
  nThreads :: label
  forceRecalc :: bool
  writeAddr :: bool



type_synonym interpolateGrad =
  "conservativeMeshToMesh \<Rightarrow> scalar GeometricField \<Rightarrow> scalar GeometricField
     \<Rightarrow> vector GeometricField \<Rightarrow> label \<Rightarrow> error + scalar GeometricField"

text \<open>
  What a run leaves to be observed, in program order: the lines printed on \<^verbatim>\<open>Info\<close> (a text,
  or a text followed by a value), the fields handed to \<^verbatim>\<open>write()\<close>, and the calls of the
  gradient overload of \<^verbatim>\<open>interpolate\<close> with their arguments.
\<close>

datatype 'a event =
    Info string
  | InfoLabel string label
  | InfoValue string 'a
  | InfoScalar string scalar
  | InfoNorms string errorNorms
  | Write "'a GeometricField"
  | WriteVector "vector GeometricField"
  | Interpolate conservativeMeshToMesh "'a GeometricField" "'a GeometricField"
      "vector GeometricField" label





subsection \<open>MapConservativeVolFields\<close>




subsection \<open>testCyclicRemap\<close>

text \<open>The local variables of \<^verbatim>\<open>testCyclicRemap\<close> that change, and the output so far.\<close>

record cyclicState =
  fieldSource :: "scalar GeometricField"
  fieldTarget :: "scalar GeometricField"
  gfieldSource :: "vector GeometricField"
  gfieldTarget :: "vector GeometricField"
  events :: "scalar event list"

text \<open>
  One call \<^verbatim>\<open>mapper.interpolate(target, source, gradSource, method)\<close> of the gradient
  overload: the operator is applied to the four arguments, and the call is entered in the
  output with the arguments the operator was applied to. The result is the target field the
  operator leaves behind, with the output so far.
\<close>

definition interpolate_call ::
  "interpolateGrad \<Rightarrow> conservativeMeshToMesh \<Rightarrow> scalar GeometricField \<Rightarrow> scalar GeometricField
     \<Rightarrow> vector GeometricField \<Rightarrow> label \<Rightarrow> scalar event list
     \<Rightarrow> error + (scalar GeometricField \<times> scalar event list)" where
  "interpolate_call interpolate mapper target source gradSource method evs =
     (case interpolate mapper target source gradSource method of
        Inl e \<Rightarrow> Inl e
      | Inr target' \<Rightarrow> Inr (target', evs @ [Interpolate mapper target source gradSource method]))"

text \<open>
  \<^verbatim>\<open>meshSourceToTarget.interpolate(fieldTarget(), fieldSource(), gfieldSource(), method)\<close>
  followed by the two calls of \<^verbatim>\<open>initBoundaryFields\<close>.
\<close>

definition mapToTarget ::
  "interpolateGrad \<Rightarrow> conservativeMeshToMesh \<Rightarrow> label \<Rightarrow> fvMesh \<Rightarrow> fvMesh \<Rightarrow> label
     \<Rightarrow> cyclicState \<Rightarrow> error + cyclicState" where
  "mapToTarget interpolate meshSourceToTarget type meshSource meshTarget method st =
     (case interpolate_call interpolate meshSourceToTarget
             (fieldTarget st) (fieldSource st) (gfieldSource st) method (events st) of
        Inl e \<Rightarrow> Inl e
      | Inr (ft, evs) \<Rightarrow>
     (case initBoundaryFields meshTarget type ft of
        Inl e \<Rightarrow> Inl e
      | Inr ft' \<Rightarrow>
     (case initBoundaryFields meshSource type (fieldSource st) of
        Inl e \<Rightarrow> Inl e
      | Inr fs' \<Rightarrow>
          Inr (st\<lparr>fieldSource := fs', fieldTarget := ft', events := evs\<rparr>))))"

text \<open>
  \<^verbatim>\<open>meshTargetToSource.interpolate(fieldSource(), fieldTarget(), gfieldTarget(), method)\<close>
  followed by the two calls of \<^verbatim>\<open>initBoundaryFields\<close>.
\<close>

definition mapToSource ::
  "interpolateGrad \<Rightarrow> conservativeMeshToMesh \<Rightarrow> label \<Rightarrow> fvMesh \<Rightarrow> fvMesh \<Rightarrow> label
     \<Rightarrow> cyclicState \<Rightarrow> error + cyclicState" where
  "mapToSource interpolate meshTargetToSource type meshSource meshTarget method st =
     (case interpolate_call interpolate meshTargetToSource
             (fieldSource st) (fieldTarget st) (gfieldTarget st) method (events st) of
        Inl e \<Rightarrow> Inl e
      | Inr (fs, evs) \<Rightarrow>
     (case initBoundaryFields meshTarget type (fieldTarget st) of
        Inl e \<Rightarrow> Inl e
      | Inr ft' \<Rightarrow>
     (case initBoundaryFields meshSource type fs of
        Inl e \<Rightarrow> Inl e
      | Inr fs' \<Rightarrow>
          Inr (st\<lparr>fieldSource := fs', fieldTarget := ft', events := evs\<rparr>))))"

text \<open>The body of the loop \<^verbatim>\<open>for (label i = 1; i < nCycles; i++)\<close>: back to the source, then to the target.\<close>

definition cycle ::
  "interpolateGrad \<Rightarrow> conservativeMeshToMesh \<Rightarrow> conservativeMeshToMesh \<Rightarrow> label \<Rightarrow> fvMesh
     \<Rightarrow> fvMesh \<Rightarrow> label \<Rightarrow> cyclicState \<Rightarrow> error + cyclicState" where
  "cycle interpolate meshSourceToTarget meshTargetToSource type meshSource meshTarget method st =
     (case mapToSource interpolate meshTargetToSource type meshSource meshTarget method st of
        Inl e \<Rightarrow> Inl e
      | Inr st' \<Rightarrow>
          mapToTarget interpolate meshSourceToTarget type meshSource meshTarget method st')"

text \<open>A body run \<open>n\<close> times, unless a fault ends the run.\<close>

fun repeat :: "nat \<Rightarrow> ('s \<Rightarrow> error + 's) \<Rightarrow> 's \<Rightarrow> error + 's" where
  "repeat 0 body st = Inr st"
| "repeat (Suc n) body st =
     (case body st of Inl e \<Rightarrow> Inl e | Inr st' \<Rightarrow> repeat n body st')"

text \<open>
  The loop counter runs from 1 while it is below \<open>nCycles\<close>: the body runs \<open>nCycles - 1\<close> times,
  and not at all when \<open>nCycles \<le> 1\<close>.
\<close>

definition testCyclicRemap ::
  "interpolateGrad \<Rightarrow> label \<Rightarrow> label \<Rightarrow> fvMesh \<Rightarrow> fvMesh \<Rightarrow> label \<Rightarrow> label \<Rightarrow> bool \<Rightarrow> bool
     \<Rightarrow> error + cyclicState" where
  "testCyclicRemap interpolate nCycles type meshSource meshTarget method nThr forceRec writeAdr =
     (case initTestField meshSource type True of
        Inl e \<Rightarrow> Inl e
      | Inr (fieldSource0, gfieldSource0) \<Rightarrow>
     (let intSource = gSum (fieldProduct (V meshSource) (internalField fieldSource0));
          ev1 = [Write fieldSource0, WriteVector gfieldSource0]
      in case initTestField meshTarget type True of
        Inl e \<Rightarrow> Inl e
      | Inr (fieldTarget0, gfieldTarget0) \<Rightarrow>
     (let meshSourceToTarget =
            \<lparr> srcMesh = meshSource, tgtMesh = meshTarget, nThreads = nThr,
              forceRecalc = forceRec, writeAddr = writeAdr \<rparr>;
          meshTargetToSource =
            \<lparr> srcMesh = meshTarget, tgtMesh = meshSource, nThreads = nThr,
              forceRecalc = forceRec, writeAddr = writeAdr \<rparr>;
          st0 = \<lparr> fieldSource = fieldSource0, fieldTarget = fieldTarget0,
                  gfieldSource = gfieldSource0, gfieldTarget = gfieldTarget0,
                  events = ev1 @ [InfoLabel '' Remapping for '' nCycles] \<rparr>
      in case mapToTarget interpolate meshSourceToTarget type meshSource meshTarget method st0 of
        Inl e \<Rightarrow> Inl e
      | Inr st1 \<Rightarrow>
     (case repeat (nat (nCycles - 1))
             (cycle interpolate meshSourceToTarget meshTargetToSource type meshSource meshTarget
                method) st1 of
        Inl e \<Rightarrow> Inl e
      | Inr st2 \<Rightarrow>
     (case computeError (fieldSource st2) (fieldTarget st2) type of
        Inl e \<Rightarrow> Inl e
      | Inr (sNorms, tNorms) \<Rightarrow>
     (let intSourceAfter =
            gSum (fieldProduct (V meshSource) (internalField (fieldSource st2)));
          intTarget = gSum (fieldProduct (V meshTarget) (internalField (fieldTarget st2)))
      in Inr (st2\<lparr>events := events st2 @
                [Write (fieldTarget st2),
                 InfoNorms ''Source'' sNorms,
                 InfoNorms ''Target'' tNorms,
                 Info '' Done.'',
                 InfoScalar ''Integral source (before): '' intSource,
                 InfoScalar ''Integral source (after): '' intSourceAfter,
                 InfoScalar ''Integral target: '' intTarget,
                 InfoScalar ''mag(intError): '' (mag (intSource - intTarget))]\<rparr>)))))))"

text \<open>
  The calls of \<^verbatim>\<open>interpolate\<close> among the events of a run, each with the mapping object it
  was called on and the gradient field it was given.
\<close>

fun interpolateCall ::
  "'a event \<Rightarrow> (conservativeMeshToMesh \<times> vector GeometricField) option" where
  "interpolateCall (Interpolate m t s g k) = Some (m, g)"
| "interpolateCall _ = None"

definition interpolateCalls ::
  "'a event list \<Rightarrow> (conservativeMeshToMesh \<times> vector GeometricField) list" where
  "interpolateCalls evs = List.map_filter interpolateCall evs"

subsection \<open>The analytic model as the specification tabulates it\<close>

text \<open>
  The value column of the specification's table of test functions, written from the table and
  not from the code: the constant is 2, and for the cosine hill \<open>r = \<parallel>x - h\<parallel>\<close> with \<open>h\<close> the origin
  and \<open>L = \<surd>2 / 2\<close>. The routines above are compared with it below.
\<close>

fun spec_value :: "testType \<Rightarrow> vector \<Rightarrow> scalar" where
  "spec_value CONSTANT p = 2"
| "spec_value LINEAR p = 2 * vec_x p + 3 * vec_y p + vec_z p"
| "spec_value SINUSOID_2D p = 1 + sin (2 * pi * vec_x p) * sin (2 * pi * vec_y p)"
| "spec_value SINUSOID_3D p =
     1 + sin (2 * pi * vec_x p) * sin (2 * pi * vec_y p) * sin (2 * pi * vec_z p)"
| "spec_value COSINE_HILL_2D p =
     2 + cos (pi * sqrt ((vec_x p)\<^sup>2 + (vec_y p)\<^sup>2 + (vec_z p)\<^sup>2) / (sqrt 2 / 2))"

text \<open>
  The error of a field in cell \<open>i\<close>: its value there minus the tabulated value at the centre
  of that cell of its mesh.
\<close>

definition cellError :: "testType \<Rightarrow> scalar GeometricField \<Rightarrow> nat \<Rightarrow> scalar" where
  "cellError k f i = internalField f ! i - spec_value k (cellCentres (fieldMesh f) ! i)"


subsection \<open>Example data\<close>

text \<open>
  A mesh of two cells and two patches, a mesh whose only cell is centred at the origin, and a
  scalar field on the first.
\<close>

definition exampleMesh :: fvMesh where
  "exampleMesh =
     \<lparr> timeName = ''0'', V = [1, 3],
       cellCentres = [Vector 1 0 0, Vector 0 1 2],
       faceCentres = [[Vector 0 0 0, Vector 1 1 0], [Vector 2 0 1]] \<rparr>"

definition originMesh :: fvMesh where
  "originMesh =
     \<lparr> timeName = ''0'', V = [1],
       cellCentres = [Vector 0 0 0],
       faceCentres = [[Vector 1 0 0]] \<rparr>"

definition exampleField :: "scalar GeometricField" where
  "exampleField =
     \<lparr> fieldIO = \<lparr> objName = ''alpha'', objInstance = ''0'',
                   readOpt = NO_READ, writeOpt = NO_WRITE \<rparr>,
       fieldMesh = exampleMesh,
       internalField = [2, 5],
       boundaryField = [[7, 8], [9]],
       patchFieldType = ''fixedValue'' \<rparr>"

text \<open>The two fields of the LINEAR kind on \<open>exampleMesh\<close>.\<close>

definition exampleLinear :: "scalar GeometricField" where
  "exampleLinear =
     \<lparr> fieldIO = \<lparr> objName = ''alpha'', objInstance = ''0'',
                   readOpt = NO_READ, writeOpt = NO_WRITE \<rparr>,
       fieldMesh = exampleMesh,
       internalField = [2, 5],
       boundaryField = [[0, 5], [5]],
       patchFieldType = ''fixedValue'' \<rparr>"

definition exampleLinearGrad :: "vector GeometricField" where
  "exampleLinearGrad =
     \<lparr> fieldIO = \<lparr> objName = ''grad(alpha)'', objInstance = ''0'',
                   readOpt = NO_READ, writeOpt = NO_WRITE \<rparr>,
       fieldMesh = exampleMesh,
       internalField = [Vector 2 3 1, Vector 2 3 1],
       boundaryField = [[Vector 0 0 0, Vector 0 0 0], [Vector 0 0 0]],
       patchFieldType = ''zeroGradient'' \<rparr>"

text \<open>A zero field on a mesh of a thousand cells.\<close>

definition thousandCells :: "scalar GeometricField" where
  "thousandCells =
     newField \<lparr> objName = ''alpha'', objInstance = ''0'',
                readOpt = NO_READ, writeOpt = NO_WRITE \<rparr>
       \<lparr> timeName = ''0'', V = replicate 1000 1,
         cellCentres = replicate 1000 (Vector 0 0 0), faceCentres = [] \<rparr>
       0 ''fixedValue''"

text \<open>
  Three interpolation operators for the examples, one for each overload: each copies the cell
  values of the source field. And a mapping object from \<open>exampleMesh\<close> to itself.
\<close>

definition copyCells :: interpolateGrad where
  "copyCells m t s g k = Inr (t\<lparr>internalField := internalField s\<rparr>)"




text \<open>
  A second mesh, of one cell, with the two fields of the LINEAR kind on it; the two mapping
  objects between \<open>exampleMesh\<close> and it; an operator that gives every target cell the integral
  of the source field divided by the volume of the target mesh; and the same operator made to
  fail on any call that is not handed the gradient field of the builder for its direction.
\<close>

definition targetMesh :: fvMesh where
  "targetMesh =
     \<lparr> timeName = ''0'', V = [4],
       cellCentres = [Vector 1 1 1],
       faceCentres = [[Vector 0 0 1]] \<rparr>"

definition targetLinear :: "scalar GeometricField" where
  "targetLinear =
     \<lparr> fieldIO = \<lparr> objName = ''alpha'', objInstance = ''0'',
                   readOpt = NO_READ, writeOpt = NO_WRITE \<rparr>,
       fieldMesh = targetMesh,
       internalField = [6],
       boundaryField = [[1]],
       patchFieldType = ''fixedValue'' \<rparr>"

definition targetLinearGrad :: "vector GeometricField" where
  "targetLinearGrad =
     \<lparr> fieldIO = \<lparr> objName = ''grad(alpha)'', objInstance = ''0'',
                   readOpt = NO_READ, writeOpt = NO_WRITE \<rparr>,
       fieldMesh = targetMesh,
       internalField = [Vector 2 3 1],
       boundaryField = [[Vector 0 0 0]],
       patchFieldType = ''zeroGradient'' \<rparr>"

definition exampleToTarget :: conservativeMeshToMesh where
  "exampleToTarget =
     \<lparr> srcMesh = exampleMesh, tgtMesh = targetMesh, nThreads = 1,
       forceRecalc = False, writeAddr = False \<rparr>"

definition targetToExample :: conservativeMeshToMesh where
  "targetToExample =
     \<lparr> srcMesh = targetMesh, tgtMesh = exampleMesh, nThreads = 1,
       forceRecalc = False, writeAddr = False \<rparr>"

definition uniformMap :: interpolateGrad where
  "uniformMap m t s g k =
     Inr (t\<lparr>internalField :=
            replicate (length (internalField t))
              (gSum (fieldProduct (V (srcMesh m)) (internalField s)) / sum_list (V (tgtMesh m)))\<rparr>)"

definition strictMap :: interpolateGrad where
  "strictMap m t s g k =
     (if (m = exampleToTarget \<and> g = exampleLinearGrad)
         \<or> (m = targetToExample \<and> g = targetLinearGrad)
      then uniformMap m t s g k
      else Inl (FatalError ''interpolate'' ''not the gradient field of the builder''))"




section \<open>Properties\<close>

subsection \<open>Loops and sums\<close>

lemma forAll_pure: "forAll cells (\<lambda>i. Inr (f i)) = Inr (map f cells)"
  by (induction cells) simp_all

lemma forAll_Inr_map: "forAll cells body = Inr vs \<Longrightarrow> map Inr vs = map body cells"
  by (induction cells arbitrary: vs) (auto split: sum.splits)

lemma forAll_Inr_length: "forAll cells body = Inr vs \<Longrightarrow> length vs = length cells"
  using forAll_Inr_map [of cells body vs] by (metis length_map)

lemma forAllFaces_sizes: "map length (forAllFaces bf f) = map length bf"
  by (auto simp: forAllFaces_def intro!: nth_equalityI)

lemma forAllFaces_map:
  assumes sizes: "map length bf = map length xC"
  shows "forAllFaces bf (\<lambda>patchI faceI. g (xC ! patchI ! faceI)) = map (map g) xC"
proof -
  from sizes have len: "length bf = length xC"
    by (metis length_map)
  have "\<And>p. p < length xC \<Longrightarrow> length (bf ! p) = length (xC ! p)"
    using sizes len by (metis nth_map)
  then show ?thesis
    unfolding forAllFaces_def len
    by (auto intro!: nth_equalityI)
qed

lemma sum_list_map_cells: "sum_list (map f [0..<n]) = (\<Sum>i<n. f i)"
  by (simp add: interv_sum_list_conv_sum_set_nat atLeast0LessThan)

subsection \<open>The enumeration, the boundary loop and the builder\<close>

lemma forAll_fst:
  assumes "\<And>i r. body i = Inr r \<Longrightarrow> fst r = v i"
  shows "forAll cells body = Inr vs \<Longrightarrow> map fst vs = map v cells"
  using assms by (induction cells arbitrary: vs) (auto split: sum.splits)

lemma enumerant_numerals [simp]:
  "enumerant 0 = Some CONSTANT" "enumerant 1 = Some LINEAR" "enumerant 2 = Some SINUSOID_2D"
  "enumerant 3 = Some SINUSOID_3D" "enumerant 4 = Some COSINE_HILL_2D"
  by (simp_all add: enumerant_def)

lemma enumerant_enum_value: "enumerant (enum_value k) = Some k"
  by (cases k) (simp_all add: enumerant_def)

lemma enumerant_Some: "enumerant type = Some k \<Longrightarrow> type = enum_value k"
  by (auto simp: enumerant_def split: if_splits)

lemma initBoundaryFields_frame:
  "initBoundaryFields mesh type f = Inr f' \<Longrightarrow>
     internalField f' = internalField f \<and> patchFieldType f' = patchFieldType f
     \<and> fieldMesh f' = fieldMesh f \<and> fieldIO f' = fieldIO f
     \<and> map length (boundaryField f') = map length (boundaryField f)"
  by (auto simp: initBoundaryFields_def Let_def forAllFaces_sizes
      split: option.splits testType.splits)

lemma cosine_hill_spec:
  "2 + cos (pi * mag_vector (vector_minus p (Vector 0 0 0)) / (0.5 * sqrt 2))
     = spec_value COSINE_HILL_2D p"
  by (simp add: mag_vector_def vector_minus_def power2_eq_square)

lemma initBoundaryFields_spec:
  assumes "map length (boundaryField f) = map length (faceCentres mesh)"
  shows "initBoundaryFields mesh (enum_value k) f =
           Inr (f\<lparr>boundaryField := map (map (spec_value k)) (faceCentres mesh)\<rparr>)"
proof -
  have "forAllFaces (boundaryField f) (\<lambda>patchI faceI. spec_value k (faceCentres mesh ! patchI ! faceI))
          = map (map (spec_value k)) (faceCentres mesh)"
    by (rule forAllFaces_map [OF assms])
  then show ?thesis
    unfolding initBoundaryFields_def Let_def cosine_hill_spec
    by (cases k) (simp_all add: constScalVal_def)
qed

lemma initBoundaryFields_unknown:
  "enumerant type = None \<Longrightarrow>
     initBoundaryFields mesh type f = Inl (FatalError initBoundaryFields_name unknown_enumerant)"
  by (simp add: initBoundaryFields_def)

lemma newField_sizes:
  "map length (boundaryField (newField io mesh val pft)) = map length (faceCentres mesh)"
  by (simp add: newField_def comp_def)

lemma initTestField_switch_length:
  "initTestField_switch xC cells type = Inr vs \<Longrightarrow> length vs = length cells"
  by (auto simp: initTestField_switch_def Let_def dest: forAll_Inr_length
      split: option.splits testType.splits)

lemma initTestField_switch_values:
  assumes "initTestField_switch xC cells (enum_value k) = Inr vs"
  shows "map fst vs = map (\<lambda>i. spec_value k (xC ! i)) cells"
proof (cases k)
  case COSINE_HILL_2D
  have "forAll cells (\<lambda>cellI.
               let x = xC ! cellI;
                   r = mag_vector (vector_minus x (Vector 0 0 0))
               in case divide_scalar pi (r * (0.5 * sqrt 2)) of
                    Inl e \<Rightarrow> Inl e
                  | Inr q \<Rightarrow>
                      Inr (spec_value COSINE_HILL_2D x,
                           vector_scale q
                             (Vector
                               (- sin (pi * r / (0.5 * sqrt 2)) * vec_x x)
                               (- sin (pi * r / (0.5 * sqrt 2)) * vec_y x)
                               (- sin (pi * r / (0.5 * sqrt 2)) * vec_z x)))) = Inr vs"
    using assms COSINE_HILL_2D
    unfolding initTestField_switch_def Let_def cosine_hill_spec by simp
  then have "map fst vs = map (\<lambda>i. spec_value COSINE_HILL_2D (xC ! i)) cells"
    by (rule forAll_fst [rotated]) (auto simp: Let_def split: sum.splits)
  with COSINE_HILL_2D show ?thesis by simp
qed (use assms in \<open>auto simp: initTestField_switch_def forAll_pure Let_def constScalVal_def comp_def\<close>)

lemma initTestField_populate:
  assumes "initTestField mesh (enum_value k) True = Inr (f, g)"
  shows "internalField f = map (\<lambda>i. spec_value k (cellCentres mesh ! i)) [0..<nCells mesh]"
    and "boundaryField f = map (map (spec_value k)) (faceCentres mesh)"
    and "boundaryField g = map (\<lambda>patch. replicate (length patch) vector_zero) (faceCentres mesh)"
    and "length (internalField g) = nCells mesh"
    and "patchFieldType f = ''fixedValue''" and "patchFieldType g = ''zeroGradient''"
    and "fieldMesh f = mesh" and "fieldMesh g = mesh"
    and "\<exists>gs. g = (newField \<lparr> objName = ''grad(alpha)'', objInstance = timeName mesh,
                                  readOpt = NO_READ, writeOpt = NO_WRITE \<rparr>
                         mesh vector_zero ''zeroGradient'')\<lparr>internalField := gs\<rparr>"
proof -
  let ?io = "\<lparr> objName = ''alpha'', objInstance = timeName mesh,
              readOpt = NO_READ, writeOpt = NO_WRITE \<rparr>"
  let ?t = "newField ?io mesh (0::scalar) ''fixedValue''"
  let ?gio = "\<lparr> objName = ''grad(alpha)'', objInstance = timeName mesh,
              readOpt = NO_READ, writeOpt = NO_WRITE \<rparr>"
  let ?tg = "newField ?gio mesh vector_zero ''zeroGradient''"
  from assms obtain vs where
    vs: "initTestField_switch (cellCentres mesh) [0..<nCells mesh] (enum_value k) = Inr vs"
    and bnd: "initBoundaryFields mesh (enum_value k) (?t\<lparr>internalField := map fst vs\<rparr>) = Inr f"
    and g: "g = ?tg\<lparr>internalField := map snd vs\<rparr>"
    by (auto simp: initTestField_def Let_def newField_def nCells_def split: sum.splits)
  have len: "length vs = nCells mesh"
    using initTestField_switch_length [OF vs] by simp
  have vals: "map fst vs = map (\<lambda>i. spec_value k (cellCentres mesh ! i)) [0..<nCells mesh]"
    by (rule initTestField_switch_values [OF vs])
  have sized: "map length (boundaryField (?t\<lparr>internalField := map fst vs\<rparr>))
                 = map length (faceCentres mesh)"
    by (simp add: newField_sizes)
  from bnd initBoundaryFields_spec [OF sized, of k]
  have f: "f = ?t\<lparr>internalField := map fst vs,
                  boundaryField := map (map (spec_value k)) (faceCentres mesh)\<rparr>"
    by simp
  show "internalField f = map (\<lambda>i. spec_value k (cellCentres mesh ! i)) [0..<nCells mesh]"
    using f vals by simp
  show "boundaryField f = map (map (spec_value k)) (faceCentres mesh)"
    using f by simp
  show "boundaryField g = map (\<lambda>patch. replicate (length patch) vector_zero) (faceCentres mesh)"
    using g by (simp add: newField_def)
  show "length (internalField g) = nCells mesh"
    using g len by simp
  show "patchFieldType f = ''fixedValue''" using f by (simp add: newField_def)
  show "patchFieldType g = ''zeroGradient''" using g by (simp add: newField_def)
  show "fieldMesh f = mesh" using f by (simp add: newField_def)
  show "fieldMesh g = mesh" using g by (simp add: newField_def)
  show "\<exists>gs. g = ?tg\<lparr>internalField := gs\<rparr>" using g by blast
qed

subsection \<open>The conservation integral\<close>

text \<open>
  C1. For a scalar field with one value per cell of the mesh, the integral the harness computes
  is the sum over the cells of the cell volume times the cell value, and it does not change when
  the boundary values of the field are replaced by any others.
\<close>

theorem volIntegral_sum_over_cells:
  fixes field :: "scalar GeometricField"
  assumes "length (internalField field) = nCells mesh"
  shows "volIntegral mesh field = (\<Sum>i<nCells mesh. V mesh ! i * internalField field ! i)
       \<and> volIntegral mesh (field\<lparr>boundaryField := bf\<rparr>) = volIntegral mesh field"
  using assms
  by (simp add: volIntegral_def gSum_def fieldProduct_def nCells_def sum_list_map_cells)

theorem volIntegral_sum_over_cells_witness:
  "length (internalField exampleField) = nCells exampleMesh
   \<and> volIntegral exampleMesh exampleField = 17
   \<and> volIntegral exampleMesh (exampleField\<lparr>boundaryField := [[0, 0], [0]]\<rparr>) = 17"
proof -
  have sized: "length (internalField exampleField) = nCells exampleMesh"
    by (simp add: exampleField_def exampleMesh_def nCells_def)
  have "(\<Sum>i<nCells exampleMesh. V exampleMesh ! i * internalField exampleField ! i) = 17"
    by (simp add: exampleField_def exampleMesh_def nCells_def lessThan_Suc numeral_2_eq_2)
  with sized volIntegral_sum_over_cells [OF sized, of "[[0, 0], [0]]"] show ?thesis
    by simp
qed

subsection \<open>The builder on the example mesh\<close>

lemma upt_2: "[0..<2] = [0, Suc 0]"
  by (simp add: upt_rec)

lemma example_LINEAR:
  "initTestField exampleMesh 1 True = Inr (exampleLinear, exampleLinearGrad)"
  by (simp add: initTestField_def initTestField_switch_def initBoundaryFields_def newField_def
      nCells_def exampleMesh_def exampleLinear_def exampleLinearGrad_def forAllFaces_def
      vector_zero_def upt_2 Let_def)

subsection \<open>The test field builder\<close>

text \<open>
  C8. Without \<open>populate\<close> the builder returns, for every value of the kind, a scalar field and a
  gradient field on the mesh whose cell and boundary values are all zero, the first tagged
  \<open>fixedValue\<close> and the second \<open>zeroGradient\<close>; nothing of the result depends on the kind or on
  the centres. Whenever the builder returns, with or without \<open>populate\<close>, the two fields have
  one value per cell and one per boundary face of the mesh and carry these two tags.
\<close>

theorem initTestField_allocates:
  "(\<exists>f g. initTestField mesh type False = Inr (f, g)
      \<and> internalField f = replicate (nCells mesh) 0
      \<and> boundaryField f = map (\<lambda>patch. replicate (length patch) 0) (faceCentres mesh)
      \<and> internalField g = replicate (nCells mesh) (Vector 0 0 0)
      \<and> boundaryField g = map (\<lambda>patch. replicate (length patch) (Vector 0 0 0)) (faceCentres mesh))
   \<and> (\<forall>f g. initTestField mesh type populate = Inr (f, g) \<longrightarrow>
        fieldMesh f = mesh \<and> length (internalField f) = nCells mesh
      \<and> map length (boundaryField f) = map length (faceCentres mesh)
      \<and> patchFieldType f = ''fixedValue''
      \<and> fieldMesh g = mesh \<and> length (internalField g) = nCells mesh
      \<and> map length (boundaryField g) = map length (faceCentres mesh)
      \<and> patchFieldType g = ''zeroGradient'')"
proof (intro conjI allI impI)
  show "\<exists>f g. initTestField mesh type False = Inr (f, g)
      \<and> internalField f = replicate (nCells mesh) 0
      \<and> boundaryField f = map (\<lambda>patch. replicate (length patch) 0) (faceCentres mesh)
      \<and> internalField g = replicate (nCells mesh) (Vector 0 0 0)
      \<and> boundaryField g = map (\<lambda>patch. replicate (length patch) (Vector 0 0 0)) (faceCentres mesh)"
    by (simp add: initTestField_def newField_def vector_zero_def)
next
  fix f g
  assume built: "initTestField mesh type populate = Inr (f, g)"
  have "fieldMesh f = mesh \<and> length (internalField f) = nCells mesh
      \<and> map length (boundaryField f) = map length (faceCentres mesh)
      \<and> patchFieldType f = ''fixedValue''
      \<and> fieldMesh g = mesh \<and> length (internalField g) = nCells mesh
      \<and> map length (boundaryField g) = map length (faceCentres mesh)
      \<and> patchFieldType g = ''zeroGradient''"
  proof (cases populate)
    case False
    with built show ?thesis
      by (auto simp: initTestField_def newField_def comp_def)
  next
    case True
    with built obtain k where "enumerant type = Some k"
      by (cases "enumerant type")
         (auto simp: initTestField_def initTestField_switch_def Let_def)
    then have "type = enum_value k"
      by (rule enumerant_Some)
    with built True have b: "initTestField mesh (enum_value k) True = Inr (f, g)"
      by simp
    show ?thesis
      using initTestField_populate [OF b] by (simp add: comp_def)
  qed
  then show "fieldMesh f = mesh" "length (internalField f) = nCells mesh"
    "map length (boundaryField f) = map length (faceCentres mesh)"
    "patchFieldType f = ''fixedValue''"
    "fieldMesh g = mesh" "length (internalField g) = nCells mesh"
    "map length (boundaryField g) = map length (faceCentres mesh)"
    "patchFieldType g = ''zeroGradient''"
    by simp_all
qed

theorem initTestField_allocates_witness:
  "initTestField exampleMesh 1 True = Inr (exampleLinear, exampleLinearGrad)
   \<and> fieldMesh exampleLinear = exampleMesh
   \<and> length (internalField exampleLinear) = nCells exampleMesh
   \<and> map length (boundaryField exampleLinear) = map length (faceCentres exampleMesh)
   \<and> patchFieldType exampleLinear = ''fixedValue''
   \<and> fieldMesh exampleLinearGrad = exampleMesh
   \<and> length (internalField exampleLinearGrad) = nCells exampleMesh
   \<and> map length (boundaryField exampleLinearGrad) = map length (faceCentres exampleMesh)
   \<and> patchFieldType exampleLinearGrad = ''zeroGradient''"
  using initTestField_allocates [of exampleMesh 1 True] example_LINEAR
  by simp

text \<open>
  C9. With \<open>populate\<close>, the boundary of the scalar field holds, face by face, the analytic value
  at the face centre; the gradient field that is returned differs from the freshly made zero
  field in its cell values only, so its boundary values are the zeros it was made with.
\<close>

theorem initTestField_boundary:
  assumes "initTestField mesh (enum_value k) True = Inr (f, g)"
  shows "boundaryField f = map (map (spec_value k)) (faceCentres mesh)
       \<and> boundaryField g
           = map (\<lambda>patch. replicate (length patch) (Vector 0 0 0)) (faceCentres mesh)
       \<and> g\<lparr>internalField := replicate (nCells mesh) (Vector 0 0 0)\<rparr>
           = newField \<lparr> objName = ''grad(alpha)'', objInstance = timeName mesh,
                        readOpt = NO_READ, writeOpt = NO_WRITE \<rparr>
               mesh (Vector 0 0 0) ''zeroGradient''"
  using initTestField_populate(2,3,9) [OF assms]
  by (auto simp: vector_zero_def newField_def)

theorem initTestField_boundary_witness:
  "initTestField exampleMesh (enum_value LINEAR) True = Inr (exampleLinear, exampleLinearGrad)
   \<and> boundaryField exampleLinear = map (map (spec_value LINEAR)) (faceCentres exampleMesh)
   \<and> boundaryField exampleLinearGrad = [[Vector 0 0 0, Vector 0 0 0], [Vector 0 0 0]]"
proof -
  have built:
    "initTestField exampleMesh (enum_value LINEAR) True = Inr (exampleLinear, exampleLinearGrad)"
    using example_LINEAR by simp
  have "map (\<lambda>patch. replicate (length patch) (Vector 0 0 0)) (faceCentres exampleMesh)
          = [[Vector 0 0 0, Vector 0 0 0], [Vector 0 0 0]]"
    by (simp add: exampleMesh_def numeral_2_eq_2)
  with built initTestField_boundary [OF built] show ?thesis
    by simp
qed

subsection \<open>The cosine hill at its centre\<close>

text \<open>
  C2, at the failing input. On a mesh with a cell centred at the origin the cosine-hill case of
  the builder divides \<open>pi\<close> by \<open>r * L\<close> with \<open>r = 0\<close>: no test of \<open>r\<close> precedes the division, and
  the run ends in the division fault instead of returning fields.
\<close>

theorem cosine_hill_centre_divides_by_zero:
  "initTestField originMesh (enum_value COSINE_HILL_2D) True = Inl FloatingPointException"
  by (simp add: initTestField_def initTestField_switch_def newField_def
      nCells_def originMesh_def mag_vector_def vector_minus_def divide_scalar_def Let_def)

subsection \<open>Values outside the enumeration\<close>

text \<open>
  C3 as stated fails. With the value 7 for the kind the error analysis runs to its end and
  prints norms (measured against the exact value 0, which the switch never assigns); and the
  diagnostic of \<^verbatim>\<open>initBoundaryFields\<close> is the same text for the values 7 and 8, so it does not
  name the value.
\<close>

theorem unknown_kind_counterexample:
  "computeError exampleField exampleField 7 =
     Inr (\<lparr> l2Error = sqrt (29 / 2), linfError = 5, dx = root 3 (1 / 2),
            dx2 = root 3 (1 / 2) * root 3 (1 / 2), cellCount = 2 \<rparr>,
          \<lparr> l2Error = sqrt (29 / 2), linfError = 5, dx = root 3 (1 / 2),
            dx2 = root 3 (1 / 2) * root 3 (1 / 2), cellCount = 2 \<rparr>)
   \<and> initBoundaryFields exampleMesh 7 exampleField
       = Inl (FatalError initBoundaryFields_name unknown_enumerant)
   \<and> initBoundaryFields exampleMesh 8 exampleField
       = Inl (FatalError initBoundaryFields_name unknown_enumerant)"
  by (simp add: computeError_def exampleField_def exampleMesh_def sourceStep_def targetStep_def
      exactSwitch_def enumerant_def divide_scalar_def nCells_def mag_def magSqr_def upt_2 Let_def
      initBoundaryFields_def)

text \<open>
  C3, amended. For a value of the kind that is none of the five enumerators, the builder with
  \<open>populate\<close> and the boundary initialisation end the run at once in a fatal error that carries
  the signature of the function and the text ``Unknown enumerant for initialisation.''.
\<close>

theorem unknown_kind_aborts:
  assumes "enumerant type = None"
  shows "initTestField mesh type True = Inl (FatalError initTestField_name unknown_enumerant)
       \<and> initBoundaryFields mesh type f
           = Inl (FatalError initBoundaryFields_name unknown_enumerant)"
  using assms
  by (simp add: initTestField_def initTestField_switch_def initBoundaryFields_def Let_def)

theorem unknown_kind_aborts_witness:
  "enumerant 7 = None
   \<and> initTestField exampleMesh 7 True = Inl (FatalError initTestField_name unknown_enumerant)
   \<and> initBoundaryFields exampleMesh 7 exampleField
       = Inl (FatalError initBoundaryFields_name unknown_enumerant)"
proof -
  have none: "enumerant 7 = None"
    by (simp add: enumerant_def)
  with unknown_kind_aborts [OF none, of exampleMesh exampleField] show ?thesis
    by simp
qed

subsection \<open>The error analysis\<close>

lemma exactSwitch_spec: "exactSwitch (enum_value k) p prev = spec_value k p"
  unfolding exactSwitch_def Let_def cosine_hill_spec
  by (cases k) (simp_all add: constScalVal_def)

lemma sourceStep_spec:
  "sourceStep (enum_value k) cs F i (e, m, p) =
     (e + (F ! i - spec_value k (cs ! i))\<^sup>2, max m \<bar>F ! i - spec_value k (cs ! i)\<bar>,
      spec_value k (cs ! i))"
  by (simp add: sourceStep_def exactSwitch_spec Let_def magSqr_def mag_def power2_eq_square)

lemma Max_insert_max:
  fixes m :: real
  shows "finite S \<Longrightarrow> Max (insert (max m a) S) = Max (insert m (insert a S))"
  by (cases "S = {}") (simp_all add: max.assoc)

lemma fold_sourceStep:
  "fold (sourceStep (enum_value k) cs F) cells (e, m, p) =
     (e + (\<Sum>i\<leftarrow>cells. (F ! i - spec_value k (cs ! i))\<^sup>2),
      Max (insert m ((\<lambda>i. \<bar>F ! i - spec_value k (cs ! i)\<bar>) ` set cells)),
      if cells = [] then p else spec_value k (cs ! last cells))"
proof (induction cells arbitrary: e m p)
  case Nil
  show ?case by simp
next
  case (Cons a cells)
  have "Max (insert (max m \<bar>F ! a - spec_value k (cs ! a)\<bar>)
               ((\<lambda>i. \<bar>F ! i - spec_value k (cs ! i)\<bar>) ` set cells))
        = Max (insert m ((\<lambda>i. \<bar>F ! i - spec_value k (cs ! i)\<bar>) ` set (a # cells)))"
    using Max_insert_max [of "(\<lambda>i. \<bar>F ! i - spec_value k (cs ! i)\<bar>) ` set cells" m]
    by simp
  with Cons show ?case
    by (simp add: sourceStep_spec add.assoc)
qed

lemma fold_targetStep:
  "(case fold (targetStep type cs F) cells (e, m, p, ie) of (e', m', p', ie') \<Rightarrow> (e', m', p'))
     = fold (sourceStep type cs F) cells (e, m, p)"
  by (induction cells arbitrary: e m p ie) (simp_all add: targetStep_def sourceStep_def Let_def)

lemma Max_abs_cells:
  fixes g :: "nat \<Rightarrow> real"
  assumes "0 < n"
  shows "Max (insert 0 ((\<lambda>i. \<bar>g i\<bar>) ` set [0..<n])) = Max ((\<lambda>i. \<bar>g i\<bar>) ` {..<n})"
proof -
  have ne: "(\<lambda>i. \<bar>g i\<bar>) ` {..<n} \<noteq> {}" using assms by auto
  have fin: "finite ((\<lambda>i. \<bar>g i\<bar>) ` {..<n})" by simp
  have "\<bar>g 0\<bar> \<in> (\<lambda>i. \<bar>g i\<bar>) ` {..<n}" using assms by auto
  then have "0 \<le> Max ((\<lambda>i. \<bar>g i\<bar>) ` {..<n})"
    using fin by (meson Max_ge abs_ge_zero order_trans)
  then show ?thesis
    using ne fin by (simp add: atLeast0LessThan max_def)
qed

lemma computeError_result:
  assumes "0 < length (internalField fS)" and "0 < length (internalField fT)"
  shows "computeError fS fT (enum_value k) =
    Inr (\<lparr> l2Error = sqrt ((\<Sum>i<length (internalField fS). (cellError k fS i)\<^sup>2)
                          / real (length (internalField fS))),
           linfError = Max ((\<lambda>i. \<bar>cellError k fS i\<bar>) ` {..<length (internalField fS)}),
           dx = root 3 (1 / real (length (internalField fS))),
           dx2 = root 3 (1 / real (length (internalField fS)))
                 * root 3 (1 / real (length (internalField fS))),
           cellCount = length (internalField fS) \<rparr>,
         \<lparr> l2Error = sqrt ((\<Sum>i<length (internalField fT). (cellError k fT i)\<^sup>2)
                          / real (length (internalField fT))),
           linfError = Max ((\<lambda>i. \<bar>cellError k fT i\<bar>) ` {..<length (internalField fT)}),
           dx = root 3 (1 / real (length (internalField fT))),
           dx2 = root 3 (1 / real (length (internalField fT)))
                 * root 3 (1 / real (length (internalField fT))),
           cellCount = length (internalField fT) \<rparr>)"
proof -
  let ?nS = "length (internalField fS)" and ?nT = "length (internalField fT)"
  have src: "fold (sourceStep (enum_value k) (cellCentres (fieldMesh fS)) (internalField fS))
               [0..<?nS] (0, 0, 0)
             = ((\<Sum>i<?nS. (cellError k fS i)\<^sup>2),
                Max ((\<lambda>i. \<bar>cellError k fS i\<bar>) ` {..<?nS}),
                spec_value k (cellCentres (fieldMesh fS) ! (?nS - 1)))"
    using assms(1) Max_abs_cells [OF assms(1), of "cellError k fS"]
    by (simp add: fold_sourceStep sum_list_map_cells cellError_def)
  obtain e m p ie where
    tgt: "fold (targetStep (enum_value k) (cellCentres (fieldMesh fT)) (internalField fT))
               [0..<?nT] (0, 0, 0, replicate (nCells (fieldMesh fT)) 0) = (e, m, p, ie)"
    by (metis prod_cases4)
  have "(e, m, p) = fold (sourceStep (enum_value k) (cellCentres (fieldMesh fT)) (internalField fT))
               [0..<?nT] (0, 0, 0)"
    using fold_targetStep [of "enum_value k" "cellCentres (fieldMesh fT)" "internalField fT"
        "[0..<?nT]" 0 0 0 "replicate (nCells (fieldMesh fT)) 0"] tgt
    by simp
  also have "\<dots> = ((\<Sum>i<?nT. (cellError k fT i)\<^sup>2),
                Max ((\<lambda>i. \<bar>cellError k fT i\<bar>) ` {..<?nT}),
                spec_value k (cellCentres (fieldMesh fT) ! (?nT - 1)))"
    using assms(2) Max_abs_cells [OF assms(2), of "cellError k fT"]
    by (simp add: fold_sourceStep sum_list_map_cells cellError_def)
  finally have em: "e = (\<Sum>i<?nT. (cellError k fT i)\<^sup>2)"
    "m = Max ((\<lambda>i. \<bar>cellError k fT i\<bar>) ` {..<?nT})"
    by simp_all
  show ?thesis
    unfolding computeError_def Let_def src tgt
    using assms em by (simp add: divide_scalar_def)
qed

lemma cbrt_thousandth: "root 3 (1 / 1000) = (1 / 10 :: real)"
proof -
  have "root 3 ((1 / 10 :: real) ^ 3) = 1 / 10"
    by (rule real_root_power_cancel) simp_all
  then show ?thesis by (simp add: power3_eq_cube)
qed

text \<open>
  C6. For two fields that are not empty, and a kind of the enumeration, the error analysis
  prints for each of them: as L2 error the square root of the sum of the squared cell errors
  divided by the number of cells, as Linf error the largest absolute cell error, and as spacing
  the cube root of one over the number of cells; for a field of 1000 cells the spacing is 1/10.
\<close>

theorem computeError_norms:
  assumes "0 < length (internalField fS)" and "0 < length (internalField fT)"
  shows "\<exists>sN tN. computeError fS fT (enum_value k) = Inr (sN, tN)
     \<and> l2Error sN = sqrt ((\<Sum>i<length (internalField fS). (cellError k fS i)\<^sup>2)
                           / real (length (internalField fS)))
     \<and> linfError sN = Max ((\<lambda>i. \<bar>cellError k fS i\<bar>) ` {..<length (internalField fS)})
     \<and> dx sN = root 3 (1 / real (length (internalField fS)))
     \<and> (length (internalField fS) = 1000 \<longrightarrow> dx sN = 1 / 10)
     \<and> l2Error tN = sqrt ((\<Sum>i<length (internalField fT). (cellError k fT i)\<^sup>2)
                           / real (length (internalField fT)))
     \<and> linfError tN = Max ((\<lambda>i. \<bar>cellError k fT i\<bar>) ` {..<length (internalField fT)})
     \<and> dx tN = root 3 (1 / real (length (internalField fT)))
     \<and> (length (internalField fT) = 1000 \<longrightarrow> dx tN = 1 / 10)"
  unfolding computeError_result [OF assms]
  by (simp add: cbrt_thousandth)

theorem computeError_norms_witness:
  "0 < length (internalField thousandCells)
   \<and> length (internalField thousandCells) = 1000
   \<and> (\<exists>sN tN. computeError thousandCells thousandCells (enum_value CONSTANT) = Inr (sN, tN)
        \<and> dx sN = 1 / 10 \<and> dx tN = 1 / 10)"
proof -
  have n: "length (internalField thousandCells) = 1000"
    by (simp add: thousandCells_def newField_def nCells_def)
  then have pos: "0 < length (internalField thousandCells)"
    by simp
  from computeError_norms [OF pos pos, of CONSTANT] n pos show ?thesis
    by auto
qed

text \<open>
  C5. Two fields built with \<open>populate\<close> for the same kind, each on its own mesh (the two may
  be the same mesh, and the two fields the same field), are analysed against that kind with L2
  error 0 and Linf error 0, provided the meshes have cells.
\<close>

theorem builder_analyzer_roundtrip:
  assumes "initTestField meshS (enum_value k) True = Inr (fS, gS)"
      and "initTestField meshT (enum_value k) True = Inr (fT, gT)"
      and "0 < nCells meshS" and "0 < nCells meshT"
  shows "\<exists>sN tN. computeError fS fT (enum_value k) = Inr (sN, tN)
     \<and> l2Error sN = 0 \<and> linfError sN = 0 \<and> l2Error tN = 0 \<and> linfError tN = 0"
proof -
  have zero: "cellError k f i = 0"
    if "initTestField mesh (enum_value k) True = Inr (f, g)" and "i < nCells mesh"
    for mesh f g i
    using initTestField_populate(1,7) [OF that(1)] that(2)
    by (simp add: cellError_def)
  have nS: "length (internalField fS) = nCells meshS"
    using initTestField_populate(1) [OF assms(1)] by simp
  have nT: "length (internalField fT) = nCells meshT"
    using initTestField_populate(1) [OF assms(2)] by simp
  have zS: "\<And>i. i < nCells meshS \<Longrightarrow> cellError k fS i = 0"
    using zero [OF assms(1)] .
  have zT: "\<And>i. i < nCells meshT \<Longrightarrow> cellError k fT i = 0"
    using zero [OF assms(2)] .
  have imS: "(\<lambda>i. \<bar>cellError k fS i\<bar>) ` {..<nCells meshS} = {0}"
    using zS assms(3) by (auto simp: image_iff)
  have imT: "(\<lambda>i. \<bar>cellError k fT i\<bar>) ` {..<nCells meshT} = {0}"
    using zT assms(4) by (auto simp: image_iff)
  have pS: "0 < length (internalField fS)" and pT: "0 < length (internalField fT)"
    using nS nT assms(3,4) by simp_all
  show ?thesis
    unfolding computeError_result [OF pS pT] nS nT imS imT
    using zS zT by simp
qed

theorem builder_analyzer_roundtrip_witness:
  "initTestField exampleMesh (enum_value LINEAR) True = Inr (exampleLinear, exampleLinearGrad)
   \<and> 0 < nCells exampleMesh
   \<and> (\<exists>sN tN. computeError exampleLinear exampleLinear (enum_value LINEAR) = Inr (sN, tN)
        \<and> l2Error sN = 0 \<and> linfError sN = 0 \<and> l2Error tN = 0 \<and> linfError tN = 0)"
proof -
  have built:
    "initTestField exampleMesh (enum_value LINEAR) True = Inr (exampleLinear, exampleLinearGrad)"
    using example_LINEAR by simp
  have pos: "0 < nCells exampleMesh"
    by (simp add: nCells_def exampleMesh_def)
  from builder_analyzer_roundtrip [OF built built pos pos] built pos show ?thesis
    by blast
qed

subsection \<open>The cyclic test\<close>

lemma interpolateCalls_append:
  "interpolateCalls (xs @ ys) = interpolateCalls xs @ interpolateCalls ys"
  by (simp add: interpolateCalls_def map_filter_def)

lemma mapToTarget_Inr:
  assumes "mapToTarget I m type mS mT k st = Inr st'"
  shows "gfieldSource st' = gfieldSource st" and "gfieldTarget st' = gfieldTarget st"
    and "events st' = events st @ [Interpolate m (fieldTarget st) (fieldSource st) (gfieldSource st) k]"
  using assms by (auto simp: mapToTarget_def interpolate_call_def split: sum.splits)

lemma mapToSource_Inr:
  assumes "mapToSource I m type mS mT k st = Inr st'"
  shows "gfieldSource st' = gfieldSource st" and "gfieldTarget st' = gfieldTarget st"
    and "events st' = events st @ [Interpolate m (fieldSource st) (fieldTarget st) (gfieldTarget st) k]"
  using assms by (auto simp: mapToSource_def interpolate_call_def split: sum.splits)

lemma cycle_Inr:
  assumes "cycle I s2t t2s type mS mT k st = Inr st'"
  shows "gfieldSource st' = gfieldSource st" and "gfieldTarget st' = gfieldTarget st"
    and "\<exists>more. events st' = events st @ more
           \<and> interpolateCalls more = [(t2s, gfieldTarget st), (s2t, gfieldSource st)]"
proof -
  from assms obtain mid where
    backward: "mapToSource I t2s type mS mT k st = Inr mid" and
    forward: "mapToTarget I s2t type mS mT k mid = Inr st'"
    by (auto simp: cycle_def split: sum.splits)
  show "gfieldSource st' = gfieldSource st"
    using mapToSource_Inr(1) [OF backward] mapToTarget_Inr(1) [OF forward] by simp
  show "gfieldTarget st' = gfieldTarget st"
    using mapToSource_Inr(2) [OF backward] mapToTarget_Inr(2) [OF forward] by simp
  show "\<exists>more. events st' = events st @ more
           \<and> interpolateCalls more = [(t2s, gfieldTarget st), (s2t, gfieldSource st)]"
    using mapToSource_Inr [OF backward] mapToTarget_Inr(3) [OF forward]
    by (simp add: interpolateCalls_def map_filter_def)
qed

lemma repeat_cycle_Inr:
  assumes "repeat n (cycle I s2t t2s type mS mT k) st = Inr st'"
  shows "gfieldSource st' = gfieldSource st \<and> gfieldTarget st' = gfieldTarget st
       \<and> (\<exists>more. events st' = events st @ more
           \<and> interpolateCalls more
               = concat (replicate n [(t2s, gfieldTarget st), (s2t, gfieldSource st)]))"
  using assms
proof (induction n arbitrary: st)
  case 0
  then show ?case by (simp add: interpolateCalls_def map_filter_def)
next
  case (Suc n)
  from Suc.prems obtain mid where
    one: "cycle I s2t t2s type mS mT k st = Inr mid" and
    rest: "repeat n (cycle I s2t t2s type mS mT k) mid = Inr st'"
    by (auto split: sum.splits)
  from cycle_Inr [OF one] obtain m1 where
    g1: "gfieldSource mid = gfieldSource st" "gfieldTarget mid = gfieldTarget st" and
    e1: "events mid = events st @ m1"
        "interpolateCalls m1 = [(t2s, gfieldTarget st), (s2t, gfieldSource st)]"
    by blast
  from Suc.IH [OF rest] obtain m2 where
    g2: "gfieldSource st' = gfieldSource mid" "gfieldTarget st' = gfieldTarget mid" and
    e2: "events st' = events mid @ m2"
        "interpolateCalls m2
           = concat (replicate n [(t2s, gfieldTarget mid), (s2t, gfieldSource mid)])"
    by blast
  have "events st' = events st @ (m1 @ m2)"
    using e1(1) e2(1) by simp
  moreover have "interpolateCalls (m1 @ m2)
      = concat (replicate (Suc n) [(t2s, gfieldTarget st), (s2t, gfieldSource st)])"
    using e1(2) e2(2) g1 by (simp add: interpolateCalls_append)
  ultimately show ?case
    using g1 g2 by auto
qed

lemma testCyclicRemap_Inr:
  assumes "testCyclicRemap I nCycles type mS mT k nThr fr wa = Inr st"
  obtains fS0 gS0 fT0 gT0 st1 st2 sN tN where
    "initTestField mS type True = Inr (fS0, gS0)"
    "initTestField mT type True = Inr (fT0, gT0)"
    "mapToTarget I \<lparr> srcMesh = mS, tgtMesh = mT, nThreads = nThr,
                      forceRecalc = fr, writeAddr = wa \<rparr> type mS mT k
       \<lparr> fieldSource = fS0, fieldTarget = fT0, gfieldSource = gS0, gfieldTarget = gT0,
         events = [Write fS0, WriteVector gS0, InfoLabel '' Remapping for '' nCycles] \<rparr>
       = Inr st1"
    "repeat (nat (nCycles - 1))
       (cycle I \<lparr> srcMesh = mS, tgtMesh = mT, nThreads = nThr,
                  forceRecalc = fr, writeAddr = wa \<rparr>
                \<lparr> srcMesh = mT, tgtMesh = mS, nThreads = nThr,
                  forceRecalc = fr, writeAddr = wa \<rparr> type mS mT k) st1 = Inr st2"
    "computeError (fieldSource st2) (fieldTarget st2) type = Inr (sN, tN)"
    "st = st2\<lparr>events := events st2 @
                [Write (fieldTarget st2),
                 InfoNorms ''Source'' sN,
                 InfoNorms ''Target'' tN,
                 Info '' Done.'',
                 InfoScalar ''Integral source (before): '' (volIntegral mS fS0),
                 InfoScalar ''Integral source (after): '' (volIntegral mS (fieldSource st2)),
                 InfoScalar ''Integral target: '' (volIntegral mT (fieldTarget st2)),
                 InfoScalar ''mag(intError): ''
                   \<bar>volIntegral mS fS0 - volIntegral mT (fieldTarget st2)\<bar>]\<rparr>"
  using assms
  unfolding testCyclicRemap_def Let_def volIntegral_def mag_def
  by (auto split: sum.splits prod.splits)

lemma example_boundary: "initBoundaryFields exampleMesh 1 exampleLinear = Inr exampleLinear"
  by (simp add: initBoundaryFields_def exampleMesh_def exampleLinear_def forAllFaces_def
      upt_2 Let_def)

lemma example_error:
  "\<exists>sN tN. computeError exampleLinear exampleLinear 1 = Inr (sN, tN)"
  using computeError_result [of exampleLinear exampleLinear LINEAR]
  by (simp add: exampleLinear_def)

lemma example_run:
  "\<exists>st. testCyclicRemap copyCells 2 1 exampleMesh exampleMesh 0 1 False False = Inr st"
proof -
  from example_error obtain sN tN where
    "computeError exampleLinear exampleLinear 1 = Inr (sN, tN)" by blast
  then show ?thesis
    by (simp add: testCyclicRemap_def example_LINEAR Let_def mapToTarget_def mapToSource_def
        cycle_def interpolate_call_def copyCells_def example_boundary)
qed

text \<open>
  C4. When a cyclic run returns, its output is: the two initial source fields written, the
  cycle count, the interpolation calls (one forward, then a backward and a forward one for each
  further cycle), and then, in this order, the final target field written, the two blocks of
  error norms of the final fields, and the integrals, the last line being the absolute
  difference between the integral of the source field as built, before any call of the
  operator, and the integral of the final target field.
\<close>

theorem testCyclicRemap_report:
  assumes "testCyclicRemap I nCycles type mS mT k nThr fr wa = Inr st"
  shows "\<exists>fS0 gS0 calls sN tN.
      initTestField mS type True = Inr (fS0, gS0)
    \<and> computeError (fieldSource st) (fieldTarget st) type = Inr (sN, tN)
    \<and> events st =
        [Write fS0, WriteVector gS0, InfoLabel '' Remapping for '' nCycles] @ calls @
        [Write (fieldTarget st),
         InfoNorms ''Source'' sN,
         InfoNorms ''Target'' tN,
         Info '' Done.'',
         InfoScalar ''Integral source (before): '' (volIntegral mS fS0),
         InfoScalar ''Integral source (after): '' (volIntegral mS (fieldSource st)),
         InfoScalar ''Integral target: '' (volIntegral mT (fieldTarget st)),
         InfoScalar ''mag(intError): '' \<bar>volIntegral mS fS0 - volIntegral mT (fieldTarget st)\<bar>]
    \<and> length (interpolateCalls calls) = 1 + 2 * nat (nCycles - 1)"
proof -
  from assms obtain fS0 gS0 fT0 gT0 st1 st2 sN tN where
    src: "initTestField mS type True = Inr (fS0, gS0)" and
    first: "mapToTarget I \<lparr> srcMesh = mS, tgtMesh = mT, nThreads = nThr,
                      forceRecalc = fr, writeAddr = wa \<rparr> type mS mT k
       \<lparr> fieldSource = fS0, fieldTarget = fT0, gfieldSource = gS0, gfieldTarget = gT0,
         events = [Write fS0, WriteVector gS0, InfoLabel '' Remapping for '' nCycles] \<rparr>
       = Inr st1" and
    loop: "repeat (nat (nCycles - 1))
       (cycle I \<lparr> srcMesh = mS, tgtMesh = mT, nThreads = nThr,
                  forceRecalc = fr, writeAddr = wa \<rparr>
                \<lparr> srcMesh = mT, tgtMesh = mS, nThreads = nThr,
                  forceRecalc = fr, writeAddr = wa \<rparr> type mS mT k) st1 = Inr st2" and
    err: "computeError (fieldSource st2) (fieldTarget st2) type = Inr (sN, tN)" and
    st: "st = st2\<lparr>events := events st2 @
                [Write (fieldTarget st2),
                 InfoNorms ''Source'' sN,
                 InfoNorms ''Target'' tN,
                 Info '' Done.'',
                 InfoScalar ''Integral source (before): '' (volIntegral mS fS0),
                 InfoScalar ''Integral source (after): '' (volIntegral mS (fieldSource st2)),
                 InfoScalar ''Integral target: '' (volIntegral mT (fieldTarget st2)),
                 InfoScalar ''mag(intError): ''
                   \<bar>volIntegral mS fS0 - volIntegral mT (fieldTarget st2)\<bar>]\<rparr>"
    by (rule testCyclicRemap_Inr)
  from mapToTarget_Inr(3) [OF first] obtain c1 where
    e1: "events st1 = [Write fS0, WriteVector gS0, InfoLabel '' Remapping for '' nCycles] @ [c1]"
    and n1: "length (interpolateCalls [c1]) = 1"
    by (simp add: interpolateCalls_def map_filter_def)
  from repeat_cycle_Inr [OF loop] obtain more where
    e2: "events st2 = events st1 @ more" and
    n2: "length (interpolateCalls more) = 2 * nat (nCycles - 1)"
    by (auto simp: length_concat sum_list_replicate)
  have "events st2 = [Write fS0, WriteVector gS0, InfoLabel '' Remapping for '' nCycles]
                       @ ([c1] @ more)"
    using e1 e2 by simp
  moreover have "length (interpolateCalls ([c1] @ more)) = 1 + 2 * nat (nCycles - 1)"
    using n1 n2 by (simp only: interpolateCalls_append length_append)
  ultimately show ?thesis
    using src err st by (intro exI [of _ fS0] exI [of _ gS0] exI [of _ "[c1] @ more"]
        exI [of _ sN] exI [of _ tN]) simp
qed

theorem testCyclicRemap_report_witness:
  "\<exists>st calls sN tN.
      testCyclicRemap copyCells 2 1 exampleMesh exampleMesh 0 1 False False = Inr st
    \<and> events st =
        [Write exampleLinear, WriteVector exampleLinearGrad, InfoLabel '' Remapping for '' 2]
        @ calls @
        [Write (fieldTarget st),
         InfoNorms ''Source'' sN,
         InfoNorms ''Target'' tN,
         Info '' Done.'',
         InfoScalar ''Integral source (before): '' (volIntegral exampleMesh exampleLinear),
         InfoScalar ''Integral source (after): '' (volIntegral exampleMesh (fieldSource st)),
         InfoScalar ''Integral target: '' (volIntegral exampleMesh (fieldTarget st)),
         InfoScalar ''mag(intError): ''
           \<bar>volIntegral exampleMesh exampleLinear - volIntegral exampleMesh (fieldTarget st)\<bar>]
    \<and> length (interpolateCalls calls) = 3"
proof -
  from example_run obtain st where
    run: "testCyclicRemap copyCells 2 1 exampleMesh exampleMesh 0 1 False False = Inr st"
    by blast
  from testCyclicRemap_report [OF run] example_LINEAR run show ?thesis
    by auto
qed

text \<open>What a step hands to the operator, and what of the operator a run depends on.\<close>

lemma mapToTarget_call:
  assumes "mapToTarget I m type mS mT k st = Inr st'"
  shows "\<exists>ft. I m (fieldTarget st) (fieldSource st) (gfieldSource st) k = Inr ft
           \<and> initBoundaryFields mT type ft = Inr (fieldTarget st')"
  using assms by (auto simp: mapToTarget_def interpolate_call_def split: sum.splits)

lemma mapToTarget_cong:
  assumes "\<And>t s. I' m t s (gfieldSource st) k = I m t s (gfieldSource st) k"
  shows "mapToTarget I' m type mS mT k st = mapToTarget I m type mS mT k st"
  using assms by (simp add: mapToTarget_def interpolate_call_def)

lemma mapToSource_cong:
  assumes "\<And>t s. I' m t s (gfieldTarget st) k = I m t s (gfieldTarget st) k"
  shows "mapToSource I' m type mS mT k st = mapToSource I m type mS mT k st"
  using assms by (simp add: mapToSource_def interpolate_call_def)

lemma cycle_cong:
  assumes fw: "\<And>t s. I' s2t t s (gfieldSource st) k = I s2t t s (gfieldSource st) k"
      and bw: "\<And>t s. I' t2s t s (gfieldTarget st) k = I t2s t s (gfieldTarget st) k"
  shows "cycle I' s2t t2s type mS mT k st = cycle I s2t t2s type mS mT k st"
proof (cases "mapToSource I t2s type mS mT k st")
  case (Inl e)
  then show ?thesis
    using mapToSource_cong [of I' t2s st k I type mS mT] bw by (simp add: cycle_def)
next
  case (Inr mid)
  have "gfieldSource mid = gfieldSource st"
    using mapToSource_Inr(1) [OF Inr] .
  then have "mapToTarget I' s2t type mS mT k mid = mapToTarget I s2t type mS mT k mid"
    using fw by (intro mapToTarget_cong) simp
  then show ?thesis
    using mapToSource_cong [of I' t2s st k I type mS mT] bw Inr by (simp add: cycle_def)
qed

lemma repeat_cycle_cong:
  assumes "\<And>t s. I' s2t t s (gfieldSource st) k = I s2t t s (gfieldSource st) k"
      and "\<And>t s. I' t2s t s (gfieldTarget st) k = I t2s t s (gfieldTarget st) k"
  shows "repeat n (cycle I' s2t t2s type mS mT k) st = repeat n (cycle I s2t t2s type mS mT k) st"
  using assms
proof (induction n arbitrary: st)
  case 0
  show ?case by simp
next
  case (Suc n)
  have one: "cycle I' s2t t2s type mS mT k st = cycle I s2t t2s type mS mT k st"
    using Suc.prems by (rule cycle_cong)
  show ?case
  proof (cases "cycle I s2t t2s type mS mT k st")
    case (Inl e)
    with one show ?thesis by simp
  next
    case (Inr mid)
    have g: "gfieldSource mid = gfieldSource st" "gfieldTarget mid = gfieldTarget st"
      using cycle_Inr(1,2) [OF Inr] by simp_all
    have "repeat n (cycle I' s2t t2s type mS mT k) mid
            = repeat n (cycle I s2t t2s type mS mT k) mid"
      using Suc.prems g by (intro Suc.IH) simp_all
    with one Inr show ?thesis by simp
  qed
qed

lemma repeat_cycle_target:
  assumes "repeat n (cycle I s2t t2s type mS mT k) st = Inr st'"
      and "\<exists>t s ft. I s2t t s (gfieldSource st) k = Inr ft
             \<and> initBoundaryFields mT type ft = Inr (fieldTarget st)"
  shows "\<exists>t s ft. I s2t t s (gfieldSource st) k = Inr ft
             \<and> initBoundaryFields mT type ft = Inr (fieldTarget st')"
  using assms
proof (induction n arbitrary: st)
  case 0
  then show ?case by simp
next
  case (Suc n)
  from Suc.prems(1) obtain mid where
    one: "cycle I s2t t2s type mS mT k st = Inr mid" and
    rest: "repeat n (cycle I s2t t2s type mS mT k) mid = Inr st'"
    by (auto split: sum.splits)
  from one obtain half where
    backward: "mapToSource I t2s type mS mT k st = Inr half" and
    forward: "mapToTarget I s2t type mS mT k half = Inr mid"
    by (auto simp: cycle_def split: sum.splits)
  have g: "gfieldSource half = gfieldSource st" "gfieldSource mid = gfieldSource st"
    using mapToSource_Inr(1) [OF backward] mapToTarget_Inr(1) [OF forward] by simp_all
  from mapToTarget_call [OF forward] g
  have "\<exists>t s ft. I s2t t s (gfieldSource mid) k = Inr ft
             \<and> initBoundaryFields mT type ft = Inr (fieldTarget mid)"
    by auto
  from Suc.IH [OF rest this] g show ?case
    by simp
qed

lemma testCyclicRemap_cong:
  assumes src: "initTestField mS type True = Inr (fS0, gS0)"
      and tgt: "initTestField mT type True = Inr (fT0, gT0)"
      and fw: "\<And>t s. I' \<lparr> srcMesh = mS, tgtMesh = mT, nThreads = nThr,
                            forceRecalc = fr, writeAddr = wa \<rparr> t s gS0 k
                     = I \<lparr> srcMesh = mS, tgtMesh = mT, nThreads = nThr,
                            forceRecalc = fr, writeAddr = wa \<rparr> t s gS0 k"
      and bw: "\<And>t s. I' \<lparr> srcMesh = mT, tgtMesh = mS, nThreads = nThr,
                            forceRecalc = fr, writeAddr = wa \<rparr> t s gT0 k
                     = I \<lparr> srcMesh = mT, tgtMesh = mS, nThreads = nThr,
                            forceRecalc = fr, writeAddr = wa \<rparr> t s gT0 k"
  shows "testCyclicRemap I' nCycles type mS mT k nThr fr wa
           = testCyclicRemap I nCycles type mS mT k nThr fr wa"
proof -
  let ?s2t = "\<lparr> srcMesh = mS, tgtMesh = mT, nThreads = nThr,
                 forceRecalc = fr, writeAddr = wa \<rparr>"
  let ?t2s = "\<lparr> srcMesh = mT, tgtMesh = mS, nThreads = nThr,
                 forceRecalc = fr, writeAddr = wa \<rparr>"
  let ?st0 = "\<lparr> fieldSource = fS0, fieldTarget = fT0, gfieldSource = gS0, gfieldTarget = gT0,
         events = [Write fS0, WriteVector gS0, InfoLabel '' Remapping for '' nCycles] \<rparr>"
  have first: "mapToTarget I' ?s2t type mS mT k ?st0 = mapToTarget I ?s2t type mS mT k ?st0"
    using fw by (intro mapToTarget_cong) simp
  have loop: "repeat n (cycle I' ?s2t ?t2s type mS mT k) st1
                = repeat n (cycle I ?s2t ?t2s type mS mT k) st1"
    if "mapToTarget I ?s2t type mS mT k ?st0 = Inr st1" for st1 n
  proof -
    have "gfieldSource st1 = gS0" "gfieldTarget st1 = gT0"
      using mapToTarget_Inr(1,2) [OF that] by simp_all
    then show ?thesis
      using fw bw by (intro repeat_cycle_cong) simp_all
  qed
  show ?thesis
  proof (cases "mapToTarget I ?s2t type mS mT k ?st0")
    case (Inl e)
    with first show ?thesis
      by (simp add: testCyclicRemap_def src tgt Let_def)
  next
    case (Inr st1)
    with first loop [OF Inr] show ?thesis
      by (simp add: testCyclicRemap_def src tgt Let_def)
  qed
qed

lemma target_LINEAR:
  "initTestField targetMesh 1 True = Inr (targetLinear, targetLinearGrad)"
  by (simp add: initTestField_def initTestField_switch_def initBoundaryFields_def newField_def
      nCells_def targetMesh_def targetLinear_def targetLinearGrad_def forAllFaces_def
      vector_zero_def Let_def)

lemma computeError_LINEAR:
  "0 < length (internalField fS) \<Longrightarrow> 0 < length (internalField fT)
     \<Longrightarrow> \<exists>sN tN. computeError fS fT 1 = Inr (sN, tN)"
  using computeError_result [of fS fT LINEAR] by simp

lemma uniform_run:
  "\<exists>st. testCyclicRemap uniformMap 2 1 exampleMesh targetMesh 0 1 False False = Inr st"
proof -
  have "\<exists>st2. repeat (nat (2 - 1))
          (cycle uniformMap exampleToTarget targetToExample 1 exampleMesh targetMesh 0)
          \<lparr> fieldSource = exampleLinear,
            fieldTarget = targetLinear\<lparr>internalField := [17 / 4]\<rparr>,
            gfieldSource = exampleLinearGrad, gfieldTarget = targetLinearGrad,
            events = [Write exampleLinear, WriteVector exampleLinearGrad,
                      InfoLabel '' Remapping for '' 2,
                      Interpolate exampleToTarget targetLinear exampleLinear exampleLinearGrad 0] \<rparr>
        = Inr st2 \<and> 0 < length (internalField (fieldSource st2))
          \<and> 0 < length (internalField (fieldTarget st2))"
    by (simp add: cycle_def mapToSource_def mapToTarget_def interpolate_call_def uniformMap_def
        initBoundaryFields_def forAllFaces_def exampleMesh_def targetMesh_def exampleLinear_def
        targetLinear_def exampleToTarget_def targetToExample_def gSum_def fieldProduct_def
        upt_2 Let_def)
  then obtain st2 where
    loop: "repeat (nat (2 - 1))
          (cycle uniformMap exampleToTarget targetToExample 1 exampleMesh targetMesh 0)
          \<lparr> fieldSource = exampleLinear,
            fieldTarget = targetLinear\<lparr>internalField := [17 / 4]\<rparr>,
            gfieldSource = exampleLinearGrad, gfieldTarget = targetLinearGrad,
            events = [Write exampleLinear, WriteVector exampleLinearGrad,
                      InfoLabel '' Remapping for '' 2,
                      Interpolate exampleToTarget targetLinear exampleLinear exampleLinearGrad 0] \<rparr>
        = Inr st2" and
    sizes: "0 < length (internalField (fieldSource st2))"
           "0 < length (internalField (fieldTarget st2))"
    by blast
  from computeError_LINEAR [OF sizes] obtain sN tN where
    err: "computeError (fieldSource st2) (fieldTarget st2) 1 = Inr (sN, tN)"
    by blast
  have first: "mapToTarget uniformMap exampleToTarget 1 exampleMesh targetMesh 0
       \<lparr> fieldSource = exampleLinear, fieldTarget = targetLinear,
         gfieldSource = exampleLinearGrad, gfieldTarget = targetLinearGrad,
         events = [Write exampleLinear, WriteVector exampleLinearGrad,
                   InfoLabel '' Remapping for '' 2] \<rparr>
     = Inr \<lparr> fieldSource = exampleLinear,
            fieldTarget = targetLinear\<lparr>internalField := [17 / 4]\<rparr>,
            gfieldSource = exampleLinearGrad, gfieldTarget = targetLinearGrad,
            events = [Write exampleLinear, WriteVector exampleLinearGrad,
                      InfoLabel '' Remapping for '' 2,
                      Interpolate exampleToTarget targetLinear exampleLinear exampleLinearGrad 0] \<rparr>"
    by (simp add: mapToTarget_def interpolate_call_def uniformMap_def
        initBoundaryFields_def forAllFaces_def exampleMesh_def targetMesh_def exampleLinear_def
        targetLinear_def exampleToTarget_def gSum_def fieldProduct_def upt_2 Let_def)
  show ?thesis
    using loop err first
    by (simp add: testCyclicRemap_def example_LINEAR target_LINEAR Let_def
        exampleToTarget_def [symmetric] targetToExample_def [symmetric])
qed

text \<open>
  C10. When a cyclic run returns, the two gradient fields are still the ones the builder made
  from the analytic model. The calls of the operator are, in order: one forward call handed the
  source gradient field as built, then for each further cycle a backward call handed the target
  gradient field as built and a forward call handed the source gradient field as built. The
  final target field is what a forward call handed the source gradient field as built left
  behind, with its boundary set anew. And the run is the same for every operator that agrees
  with the given one on the forward calls handed the source gradient field as built and on the
  backward calls handed the target gradient field as built: no call is handed any other
  gradient field.
\<close>

theorem testCyclicRemap_gradients:
  assumes "testCyclicRemap I nCycles type mS mT k nThr fr wa = Inr st"
  shows "\<exists>fS0 gS0 fT0 gT0.
      initTestField mS type True = Inr (fS0, gS0)
    \<and> initTestField mT type True = Inr (fT0, gT0)
    \<and> gfieldSource st = gS0 \<and> gfieldTarget st = gT0
    \<and> interpolateCalls (events st) =
        (\<lparr> srcMesh = mS, tgtMesh = mT, nThreads = nThr,
           forceRecalc = fr, writeAddr = wa \<rparr>, gS0)
        # concat (replicate (nat (nCycles - 1))
            [(\<lparr> srcMesh = mT, tgtMesh = mS, nThreads = nThr,
                forceRecalc = fr, writeAddr = wa \<rparr>, gT0),
             (\<lparr> srcMesh = mS, tgtMesh = mT, nThreads = nThr,
                forceRecalc = fr, writeAddr = wa \<rparr>, gS0)])
    \<and> (\<exists>t s ft. I \<lparr> srcMesh = mS, tgtMesh = mT, nThreads = nThr,
                      forceRecalc = fr, writeAddr = wa \<rparr> t s gS0 k = Inr ft
          \<and> initBoundaryFields mT type ft = Inr (fieldTarget st))
    \<and> (\<forall>I'. (\<forall>t s. I' \<lparr> srcMesh = mS, tgtMesh = mT, nThreads = nThr,
                           forceRecalc = fr, writeAddr = wa \<rparr> t s gS0 k
                    = I \<lparr> srcMesh = mS, tgtMesh = mT, nThreads = nThr,
                           forceRecalc = fr, writeAddr = wa \<rparr> t s gS0 k)
            \<and> (\<forall>t s. I' \<lparr> srcMesh = mT, tgtMesh = mS, nThreads = nThr,
                           forceRecalc = fr, writeAddr = wa \<rparr> t s gT0 k
                    = I \<lparr> srcMesh = mT, tgtMesh = mS, nThreads = nThr,
                           forceRecalc = fr, writeAddr = wa \<rparr> t s gT0 k)
          \<longrightarrow> testCyclicRemap I' nCycles type mS mT k nThr fr wa = Inr st)"
proof -
  let ?s2t = "\<lparr> srcMesh = mS, tgtMesh = mT, nThreads = nThr,
                 forceRecalc = fr, writeAddr = wa \<rparr>"
  let ?t2s = "\<lparr> srcMesh = mT, tgtMesh = mS, nThreads = nThr,
                 forceRecalc = fr, writeAddr = wa \<rparr>"
  from assms obtain fS0 gS0 fT0 gT0 st1 st2 sN tN where
    src: "initTestField mS type True = Inr (fS0, gS0)" and
    tgt: "initTestField mT type True = Inr (fT0, gT0)" and
    first: "mapToTarget I ?s2t type mS mT k
       \<lparr> fieldSource = fS0, fieldTarget = fT0, gfieldSource = gS0, gfieldTarget = gT0,
         events = [Write fS0, WriteVector gS0, InfoLabel '' Remapping for '' nCycles] \<rparr>
       = Inr st1" and
    loop: "repeat (nat (nCycles - 1)) (cycle I ?s2t ?t2s type mS mT k) st1 = Inr st2" and
    st: "st = st2\<lparr>events := events st2 @
                [Write (fieldTarget st2),
                 InfoNorms ''Source'' sN,
                 InfoNorms ''Target'' tN,
                 Info '' Done.'',
                 InfoScalar ''Integral source (before): '' (volIntegral mS fS0),
                 InfoScalar ''Integral source (after): '' (volIntegral mS (fieldSource st2)),
                 InfoScalar ''Integral target: '' (volIntegral mT (fieldTarget st2)),
                 InfoScalar ''mag(intError): ''
                   \<bar>volIntegral mS fS0 - volIntegral mT (fieldTarget st2)\<bar>]\<rparr>"
    by (rule testCyclicRemap_Inr)
  have g1: "gfieldSource st1 = gS0" "gfieldTarget st1 = gT0"
    using mapToTarget_Inr(1,2) [OF first] by simp_all
  have c1: "interpolateCalls (events st1) = [(?s2t, gS0)]"
    using mapToTarget_Inr(3) [OF first] by (simp add: interpolateCalls_def map_filter_def)
  from repeat_cycle_Inr [OF loop] g1 obtain more where
    g2: "gfieldSource st2 = gS0" "gfieldTarget st2 = gT0" and
    e2: "events st2 = events st1 @ more" and
    c2: "interpolateCalls more
           = concat (replicate (nat (nCycles - 1)) [(?t2s, gT0), (?s2t, gS0)])"
    by auto
  have calls: "interpolateCalls (events st)
                 = interpolateCalls (events st1) @ interpolateCalls more"
    unfolding st using e2 by (simp add: interpolateCalls_append)
       (simp add: interpolateCalls_def map_filter_def)
  have "\<exists>t s ft. I ?s2t t s (gfieldSource st1) k = Inr ft
          \<and> initBoundaryFields mT type ft = Inr (fieldTarget st1)"
    using mapToTarget_call [OF first] g1 by auto
  from repeat_cycle_target [OF loop this] g1
  have last_call: "\<exists>t s ft. I ?s2t t s gS0 k = Inr ft
          \<and> initBoundaryFields mT type ft = Inr (fieldTarget st)"
    unfolding st by simp
  have same: "testCyclicRemap I' nCycles type mS mT k nThr fr wa = Inr st"
    if "\<forall>t s. I' ?s2t t s gS0 k = I ?s2t t s gS0 k"
      and "\<forall>t s. I' ?t2s t s gT0 k = I ?t2s t s gT0 k" for I'
    using testCyclicRemap_cong [OF src tgt, of I' nThr fr wa k I nCycles] that assms
    by simp
  show ?thesis
    using src tgt g2 st c1 c2 calls last_call same
    by (intro exI [of _ fS0] exI [of _ gS0] exI [of _ fT0] exI [of _ gT0]) simp
qed

theorem testCyclicRemap_gradients_witness:
  "\<exists>st. testCyclicRemap uniformMap 2 1 exampleMesh targetMesh 0 1 False False = Inr st
    \<and> gfieldSource st = exampleLinearGrad \<and> gfieldTarget st = targetLinearGrad
    \<and> interpolateCalls (events st) =
        [(exampleToTarget, exampleLinearGrad), (targetToExample, targetLinearGrad),
         (exampleToTarget, exampleLinearGrad)]
    \<and> testCyclicRemap strictMap 2 1 exampleMesh targetMesh 0 1 False False = Inr st"
proof -
  from uniform_run obtain st where
    run: "testCyclicRemap uniformMap 2 1 exampleMesh targetMesh 0 1 False False = Inr st"
    by blast
  have fw: "\<forall>t s. strictMap exampleToTarget t s exampleLinearGrad 0
                  = uniformMap exampleToTarget t s exampleLinearGrad 0"
    by (simp add: strictMap_def)
  have bw: "\<forall>t s. strictMap targetToExample t s targetLinearGrad 0
                  = uniformMap targetToExample t s targetLinearGrad 0"
    by (simp add: strictMap_def)
  from testCyclicRemap_gradients [OF run] example_LINEAR target_LINEAR
  have "gfieldSource st = exampleLinearGrad \<and> gfieldTarget st = targetLinearGrad
    \<and> interpolateCalls (events st) =
        [(exampleToTarget, exampleLinearGrad), (targetToExample, targetLinearGrad),
         (exampleToTarget, exampleLinearGrad)]
    \<and> (\<forall>I'. (\<forall>t s. I' exampleToTarget t s exampleLinearGrad 0
                    = uniformMap exampleToTarget t s exampleLinearGrad 0)
            \<and> (\<forall>t s. I' targetToExample t s targetLinearGrad 0
                    = uniformMap targetToExample t s targetLinearGrad 0)
          \<longrightarrow> testCyclicRemap I' 2 1 exampleMesh targetMesh 0 1 False False = Inr st)"
    by (simp add: exampleToTarget_def targetToExample_def)
  with fw bw run show ?thesis
    by blast
qed

subsection \<open>The mapping driver\<close>





end
